theory Spec2Isabelle
  imports Main "HOL-Library.Sublist"
begin

section \<open>Strings\<close>

text \<open>
  The text of the forms and of the database is modelled as a \<^typ>\<open>string\<close>, one
  \<^typ>\<open>char\<close> per character, read as the code points U+0000 to U+00FF (Latin-1, which
  covers the Portuguese text of the application).
\<close>


text \<open>
  \<^verbatim>\<open>String.prototype.trim\<close> removes white space and line terminators from both
  ends. In the range U+0000 to U+00FF these are U+0009 to U+000D, the space and the
  no-break space U+00A0.
\<close>

definition isWhiteSpace :: "char \<Rightarrow> bool" where
  "isWhiteSpace c =
     (let n = (of_char c :: nat) in (9 \<le> n \<and> n \<le> 13) \<or> n = 32 \<or> n = 160)"

definition trim :: "string \<Rightarrow> string" where
  "trim s = rev (dropWhile isWhiteSpace (rev (dropWhile isWhiteSpace s)))"

subsection \<open>Lower case in JavaScript\<close>














section \<open>The tables of the migration\<close>

text \<open>
  A UUID is modelled as a natural number, a timestamp as a natural number of clock
  ticks, a date as a natural number of days. A column that may hold NULL has an option
  type; the \<^verbatim>\<open>NOT NULL\<close> columns and the primary keys do not.
\<close>

type_synonym uuid = nat
type_synonym date = nat
type_synonym timestamptz = nat

text \<open>\<^verbatim>\<open>public.profiles\<close>, lines 2 to 9 of the migration.\<close>

record profile =
  pf_id :: uuid
  pf_full_name :: string
  pf_crp :: "string option"
  pf_phone :: "string option"
  pf_created_at :: timestamptz
  pf_updated_at :: timestamptz

text \<open>\<^verbatim>\<open>public.patients\<close>, lines 25 to 40.\<close>

record patient =
  pt_id :: uuid
  pt_psychologist_id :: uuid
  pt_full_name :: string
  pt_email :: "string option"
  pt_phone :: "string option"
  pt_birth_date :: "date option"
  pt_cpf :: "string option"
  pt_address :: "string option"
  pt_emergency_contact :: "string option"
  pt_emergency_phone :: "string option"
  pt_notes :: "string option"
  pt_status :: "string option"
  pt_created_at :: timestamptz
  pt_updated_at :: timestamptz

text \<open>\<^verbatim>\<open>public.patient_records\<close>, lines 59 to 73.\<close>

record patient_record =
  pr_id :: uuid
  pr_patient_id :: uuid
  pr_psychologist_id :: uuid
  pr_session_date :: date
  pr_session_type :: "string option"
  pr_main_complaint :: "string option"
  pr_session_notes :: "string option"
  pr_observations :: "string option"
  pr_next_session_goals :: "string option"
  pr_mood_state :: "string option"
  pr_interventions :: "string option"
  pr_created_at :: timestamptz
  pr_updated_at :: timestamptz

text \<open>
  \<^verbatim>\<open>auth.users\<close> belongs to the hosted identity service; the migration uses its
  columns \<^verbatim>\<open>id\<close> and \<^verbatim>\<open>raw_user_meta_data\<close>. The metadata is a JSON value: an
  object with its fields, each key once, or something else. A field holds JSON null, a
  JSON string, or another JSON value, kept as its text.
\<close>

datatype json_field = JNull | JString string | JOther string

datatype jsonb = JObject "(string \<times> json_field) list" | JNotObject

record auth_user =
  au_id :: uuid
  au_raw_user_meta_data :: "jsonb option"

record database =
  auth_users :: "auth_user list"
  public_profiles :: "profile list"
  public_patients :: "patient list"
  public_patient_records :: "patient_record list"

definition empty_database :: database where
  "empty_database = \<lparr>auth_users = [], public_profiles = [], public_patients = [],
      public_patient_records = []\<rparr>"

subsection \<open>Rows and columns in general\<close>

datatype table_name = Profiles | Patients | Patient_records

datatype column =
    Id | Psychologist_id | Patient_id | Full_name | Crp | Email | Phone | Birth_date | Cpf
  | Address | Emergency_contact | Emergency_phone | Notes | Status | Session_date
  | Session_type | Main_complaint | Session_notes | Observations | Next_session_goals
  | Mood_state | Interventions | Created_at | Updated_at

datatype val = Null | Uuid uuid | Text string | Day date | Time timestamptz

datatype row = Profile_row profile | Patient_row patient | Record_row patient_record

fun table_of :: "row \<Rightarrow> table_name" where
  "table_of (Profile_row p) = Profiles"
| "table_of (Patient_row p) = Patients"
| "table_of (Record_row r) = Patient_records"

fun table_rows :: "table_name \<Rightarrow> database \<Rightarrow> row list" where
  "table_rows Profiles db = map Profile_row (public_profiles db)"
| "table_rows Patients db = map Patient_row (public_patients db)"
| "table_rows Patient_records db = map Record_row (public_patient_records db)"

definition text_or_null :: "string option \<Rightarrow> val" where
  "text_or_null x = (case x of None \<Rightarrow> Null | Some s \<Rightarrow> Text s)"

definition day_or_null :: "date option \<Rightarrow> val" where
  "day_or_null x = (case x of None \<Rightarrow> Null | Some d \<Rightarrow> Day d)"

text \<open>
  The value of a column in a row. A column that the row's table does not have reads as
  NULL here (the database would refuse the statement).
\<close>

fun col :: "column \<Rightarrow> row \<Rightarrow> val" where
  "col Id (Profile_row p) = Uuid (pf_id p)"
| "col Full_name (Profile_row p) = Text (pf_full_name p)"
| "col Crp (Profile_row p) = text_or_null (pf_crp p)"
| "col Phone (Profile_row p) = text_or_null (pf_phone p)"
| "col Created_at (Profile_row p) = Time (pf_created_at p)"
| "col Updated_at (Profile_row p) = Time (pf_updated_at p)"
| "col Id (Patient_row p) = Uuid (pt_id p)"
| "col Psychologist_id (Patient_row p) = Uuid (pt_psychologist_id p)"
| "col Full_name (Patient_row p) = Text (pt_full_name p)"
| "col Email (Patient_row p) = text_or_null (pt_email p)"
| "col Phone (Patient_row p) = text_or_null (pt_phone p)"
| "col Birth_date (Patient_row p) = day_or_null (pt_birth_date p)"
| "col Cpf (Patient_row p) = text_or_null (pt_cpf p)"
| "col Address (Patient_row p) = text_or_null (pt_address p)"
| "col Emergency_contact (Patient_row p) = text_or_null (pt_emergency_contact p)"
| "col Emergency_phone (Patient_row p) = text_or_null (pt_emergency_phone p)"
| "col Notes (Patient_row p) = text_or_null (pt_notes p)"
| "col Status (Patient_row p) = text_or_null (pt_status p)"
| "col Created_at (Patient_row p) = Time (pt_created_at p)"
| "col Updated_at (Patient_row p) = Time (pt_updated_at p)"
| "col Id (Record_row r) = Uuid (pr_id r)"
| "col Patient_id (Record_row r) = Uuid (pr_patient_id r)"
| "col Psychologist_id (Record_row r) = Uuid (pr_psychologist_id r)"
| "col Session_date (Record_row r) = Day (pr_session_date r)"
| "col Session_type (Record_row r) = text_or_null (pr_session_type r)"
| "col Main_complaint (Record_row r) = text_or_null (pr_main_complaint r)"
| "col Session_notes (Record_row r) = text_or_null (pr_session_notes r)"
| "col Observations (Record_row r) = text_or_null (pr_observations r)"
| "col Next_session_goals (Record_row r) = text_or_null (pr_next_session_goals r)"
| "col Mood_state (Record_row r) = text_or_null (pr_mood_state r)"
| "col Interventions (Record_row r) = text_or_null (pr_interventions r)"
| "col Created_at (Record_row r) = Time (pr_created_at r)"
| "col Updated_at (Record_row r) = Time (pr_updated_at r)"
| "col c r = Null"

text \<open>
  The columns declared \<^verbatim>\<open>REFERENCES auth.users(id)\<close>: line 3 for the profiles,
  line 27 for the patients, line 62 for the patient records.
\<close>

fun references_auth_users :: "table_name \<Rightarrow> column list" where
  "references_auth_users Profiles = [Id]"
| "references_auth_users Patients = [Psychologist_id]"
| "references_auth_users Patient_records = [Psychologist_id]"

text \<open>The user a row belongs to: the value of that column.\<close>

fun owner :: "row \<Rightarrow> uuid" where
  "owner (Profile_row p) = pf_id p"
| "owner (Patient_row p) = pt_psychologist_id p"
| "owner (Record_row r) = pr_psychologist_id r"

section \<open>The row-level-security policies\<close>

datatype command = SELECT | INSERT | UPDATE | DELETE

datatype expr = Auth_uid | Column column

datatype predicate = Equals expr expr

datatype policy_clause = USING predicate | WITH_CHECK predicate

record policy =
  policy_name :: string
  on_table :: table_name
  for_command :: command
  clause :: policy_clause

text \<open>The eleven \<^verbatim>\<open>CREATE POLICY\<close> statements of the migration, in their order.\<close>

definition policies :: "policy list" where
  "policies =
    [\<lparr>policy_name = ''Users can view own profile'', on_table = Profiles,
       for_command = SELECT, clause = USING (Equals Auth_uid (Column Id))\<rparr>,
     \<lparr>policy_name = ''Users can update own profile'', on_table = Profiles,
       for_command = UPDATE, clause = USING (Equals Auth_uid (Column Id))\<rparr>,
     \<lparr>policy_name = ''Users can insert own profile'', on_table = Profiles,
       for_command = INSERT, clause = WITH_CHECK (Equals Auth_uid (Column Id))\<rparr>,
     \<lparr>policy_name = ''Psychologists can view own patients'', on_table = Patients,
       for_command = SELECT, clause = USING (Equals Auth_uid (Column Psychologist_id))\<rparr>,
     \<lparr>policy_name = ''Psychologists can insert own patients'', on_table = Patients,
       for_command = INSERT, clause = WITH_CHECK (Equals Auth_uid (Column Psychologist_id))\<rparr>,
     \<lparr>policy_name = ''Psychologists can update own patients'', on_table = Patients,
       for_command = UPDATE, clause = USING (Equals Auth_uid (Column Psychologist_id))\<rparr>,
     \<lparr>policy_name = ''Psychologists can delete own patients'', on_table = Patients,
       for_command = DELETE, clause = USING (Equals Auth_uid (Column Psychologist_id))\<rparr>,
     \<lparr>policy_name = ''Psychologists can view own records'', on_table = Patient_records,
       for_command = SELECT, clause = USING (Equals Auth_uid (Column Psychologist_id))\<rparr>,
     \<lparr>policy_name = ''Psychologists can insert own records'', on_table = Patient_records,
       for_command = INSERT, clause = WITH_CHECK (Equals Auth_uid (Column Psychologist_id))\<rparr>,
     \<lparr>policy_name = ''Psychologists can update own records'', on_table = Patient_records,
       for_command = UPDATE, clause = USING (Equals Auth_uid (Column Psychologist_id))\<rparr>,
     \<lparr>policy_name = ''Psychologists can delete own records'', on_table = Patient_records,
       for_command = DELETE, clause = USING (Equals Auth_uid (Column Psychologist_id))\<rparr>]"

text \<open>
  \<^verbatim>\<open>ENABLE ROW LEVEL SECURITY\<close>, lines 12, 43 and 76: on each of the three tables.
\<close>

fun row_level_security :: "table_name \<Rightarrow> bool" where
  "row_level_security Profiles = True"
| "row_level_security Patients = True"
| "row_level_security Patient_records = True"

subsection \<open>How the database applies the policies\<close>

text \<open>
  The caller of a statement is \<open>Some u\<close> for the authenticated user \<open>u\<close> and
  \<open>None\<close> for an anonymous one: \<^verbatim>\<open>auth.uid()\<close> is then NULL. (The owner of the
  tables and the service role bypass row-level security and are not callers here.)
  A comparison with NULL is unknown, and a row passes a policy only when the predicate
  is true.
\<close>

fun eval_expr :: "uuid option \<Rightarrow> row \<Rightarrow> expr \<Rightarrow> val" where
  "eval_expr caller r Auth_uid = (case caller of None \<Rightarrow> Null | Some u \<Rightarrow> Uuid u)"
| "eval_expr caller r (Column c) = col c r"

fun eval_predicate :: "uuid option \<Rightarrow> row \<Rightarrow> predicate \<Rightarrow> bool option" where
  "eval_predicate caller r (Equals a b) =
     (let x = eval_expr caller r a; y = eval_expr caller r b
      in if x = Null \<or> y = Null then None else Some (x = y))"

definition policies_for :: "table_name \<Rightarrow> command \<Rightarrow> policy list" where
  "policies_for t c = filter (\<lambda>p. on_table p = t \<and> for_command p = c) policies"

text \<open>The predicate of a policy, whichever clause gives it.\<close>

definition policy_predicate :: "policy \<Rightarrow> predicate" where
  "policy_predicate p = (case clause p of USING q \<Rightarrow> q | WITH_CHECK q \<Rightarrow> q)"

text \<open>
  The predicate a policy applies to the rows a statement reads or removes, and the one it
  applies to the rows a statement writes. An \<^verbatim>\<open>UPDATE\<close> policy that gives only
  \<^verbatim>\<open>USING\<close> applies it to the new row as well.
\<close>

fun using_of :: "policy \<Rightarrow> predicate option" where
  "using_of p = (case clause p of USING q \<Rightarrow> Some q | WITH_CHECK q \<Rightarrow> None)"

fun check_of :: "policy \<Rightarrow> predicate option" where
  "check_of p =
     (case clause p of
        WITH_CHECK q \<Rightarrow> Some q
      | USING q \<Rightarrow> if for_command p = UPDATE then Some q else None)"

definition passes :: "uuid option \<Rightarrow> row \<Rightarrow> predicate option \<Rightarrow> bool" where
  "passes caller r q = (case q of None \<Rightarrow> False | Some e \<Rightarrow> eval_predicate caller r e = Some True)"

text \<open>
  With row-level security enabled a row is refused unless some policy of the table for
  the command admits it: the policies are permissive, and a command with no policy is
  denied.
\<close>

definition rls_using :: "uuid option \<Rightarrow> command \<Rightarrow> row \<Rightarrow> bool" where
  "rls_using caller c r =
     (\<not> row_level_security (table_of r)
      \<or> list_ex (\<lambda>p. passes caller r (using_of p)) (policies_for (table_of r) c))"

definition rls_check :: "uuid option \<Rightarrow> command \<Rightarrow> row \<Rightarrow> bool" where
  "rls_check caller c r =
     (\<not> row_level_security (table_of r)
      \<or> list_ex (\<lambda>p. passes caller r (check_of p)) (policies_for (table_of r) c))"

text \<open>
  Whether the caller may apply a command to a row: \<^verbatim>\<open>INSERT\<close> is judged on the row to
  be written, the other commands on the row as it stands.
\<close>

fun permitted :: "uuid option \<Rightarrow> command \<Rightarrow> row \<Rightarrow> bool" where
  "permitted caller INSERT r = rls_check caller INSERT r"
| "permitted caller c r = rls_using caller c r"

subsection \<open>The constraints of the tables\<close>

text \<open>
  Primary keys (lines 3, 26, 60), foreign keys (lines 3, 27, 61, 62) and the two
  \<^verbatim>\<open>CHECK\<close> constraints (lines 37 and 64), which a NULL satisfies.
\<close>

definition user_ids :: "database \<Rightarrow> uuid list" where
  "user_ids db = map au_id (auth_users db)"

definition patient_ids :: "database \<Rightarrow> uuid list" where
  "patient_ids db = map pt_id (public_patients db)"

definition status_check :: "string option \<Rightarrow> bool" where
  "status_check s =
     (case s of None \<Rightarrow> True | Some v \<Rightarrow> v \<in> set [''active'', ''inactive'', ''discharged''])"

definition session_type_check :: "string option \<Rightarrow> bool" where
  "session_type_check s =
     (case s of None \<Rightarrow> True
      | Some v \<Rightarrow> v \<in> set [''individual'', ''couple'', ''family'', ''group''])"

definition primary_keys_ok :: "database \<Rightarrow> bool" where
  "primary_keys_ok db =
     (distinct (user_ids db) \<and> distinct (map pf_id (public_profiles db))
      \<and> distinct (patient_ids db) \<and> distinct (map pr_id (public_patient_records db)))"

definition foreign_keys_ok :: "database \<Rightarrow> bool" where
  "foreign_keys_ok db =
     (list_all (\<lambda>p. pf_id p \<in> set (user_ids db)) (public_profiles db)
      \<and> list_all (\<lambda>p. pt_psychologist_id p \<in> set (user_ids db)) (public_patients db)
      \<and> list_all (\<lambda>r. pr_patient_id r \<in> set (patient_ids db)
                        \<and> pr_psychologist_id r \<in> set (user_ids db))
           (public_patient_records db))"

definition checks_ok :: "database \<Rightarrow> bool" where
  "checks_ok db =
     (list_all (\<lambda>p. status_check (pt_status p)) (public_patients db)
      \<and> list_all (\<lambda>r. session_type_check (pr_session_type r)) (public_patient_records db))"

definition constraints_ok :: "database \<Rightarrow> bool" where
  "constraints_ok db = (primary_keys_ok db \<and> foreign_keys_ok db \<and> checks_ok db)"

subsection \<open>Text that the database refuses\<close>

text \<open>
  PostgreSQL stores no text that holds the character U+0000 and refuses the statement
  that brings one; the same goes for the strings of a \<^verbatim>\<open>jsonb\<close> value.
\<close>

definition text_ok :: "string \<Rightarrow> bool" where
  "text_ok s = (CHR 0x00 \<notin> set s)"

definition text_option_ok :: "string option \<Rightarrow> bool" where
  "text_option_ok x = (case x of None \<Rightarrow> True | Some s \<Rightarrow> text_ok s)"

fun row_text_ok :: "row \<Rightarrow> bool" where
  "row_text_ok (Profile_row p) =
     (text_ok (pf_full_name p) \<and> text_option_ok (pf_crp p) \<and> text_option_ok (pf_phone p))"
| "row_text_ok (Patient_row p) =
     (text_ok (pt_full_name p) \<and> text_option_ok (pt_email p) \<and> text_option_ok (pt_phone p)
      \<and> text_option_ok (pt_cpf p) \<and> text_option_ok (pt_address p)
      \<and> text_option_ok (pt_emergency_contact p) \<and> text_option_ok (pt_emergency_phone p)
      \<and> text_option_ok (pt_notes p) \<and> text_option_ok (pt_status p))"
| "row_text_ok (Record_row r) =
     (text_option_ok (pr_session_type r) \<and> text_option_ok (pr_main_complaint r)
      \<and> text_option_ok (pr_session_notes r) \<and> text_option_ok (pr_observations r)
      \<and> text_option_ok (pr_next_session_goals r) \<and> text_option_ok (pr_mood_state r)
      \<and> text_option_ok (pr_interventions r))"

fun json_field_ok :: "json_field \<Rightarrow> bool" where
  "json_field_ok JNull = True"
| "json_field_ok (JString s) = text_ok s"
| "json_field_ok (JOther s) = text_ok s"

definition jsonb_ok :: "jsonb option \<Rightarrow> bool" where
  "jsonb_ok j =
     (case j of
        Some (JObject kvs) \<Rightarrow> list_all (\<lambda>(k, v). text_ok k \<and> json_field_ok v) kvs
      | _ \<Rightarrow> True)"

subsection \<open>Statements of an API caller\<close>

datatype sql_error =
  Untranslatable_character | Row_security_violation | Constraint_violation | Invalid_date

text \<open>\<^verbatim>\<open>SELECT\<close>: the rows of the table that the policies let the caller see.\<close>

definition sql_select :: "uuid option \<Rightarrow> table_name \<Rightarrow> database \<Rightarrow> row list" where
  "sql_select caller t db = filter (rls_using caller SELECT) (table_rows t db)"

fun add_row :: "row \<Rightarrow> database \<Rightarrow> database" where
  "add_row (Profile_row p) db = db\<lparr>public_profiles := public_profiles db @ [p]\<rparr>"
| "add_row (Patient_row p) db = db\<lparr>public_patients := public_patients db @ [p]\<rparr>"
| "add_row (Record_row r) db = db\<lparr>public_patient_records := public_patient_records db @ [r]\<rparr>"

text \<open>
  \<^verbatim>\<open>INSERT\<close> of one row: the values are read first, then comes the policy check,
  then the constraints. The foreign-key lookup reads the referenced table without
  regard to its policies.
\<close>

definition sql_insert :: "uuid option \<Rightarrow> row \<Rightarrow> database \<Rightarrow> sql_error + database" where
  "sql_insert caller r db =
     (if \<not> row_text_ok r then Inl Untranslatable_character
      else if \<not> rls_check caller INSERT r then Inl Row_security_violation
      else if \<not> constraints_ok (add_row r db) then Inl Constraint_violation
      else Inr (add_row r db))"

text \<open>
  \<^verbatim>\<open>UPDATE t SET ... WHERE ...\<close>. The assignment is a function on the rows of one
  table. The rows the caller may not update are skipped silently; a new row that fails
  the check aborts the statement. The triggers of lines 101 to 111 run
  \<^verbatim>\<open>update_updated_at_column\<close> (lines 92 to 98) before each row is written.
\<close>

datatype assignment =
    Set_profile "profile \<Rightarrow> profile"
  | Set_patient "patient \<Rightarrow> patient"
  | Set_record "patient_record \<Rightarrow> patient_record"

fun assignment_table :: "assignment \<Rightarrow> table_name" where
  "assignment_table (Set_profile f) = Profiles"
| "assignment_table (Set_patient f) = Patients"
| "assignment_table (Set_record f) = Patient_records"

fun update_updated_at_column :: "timestamptz \<Rightarrow> row \<Rightarrow> row" where
  "update_updated_at_column now (Profile_row p) = Profile_row (p\<lparr>pf_updated_at := now\<rparr>)"
| "update_updated_at_column now (Patient_row p) = Patient_row (p\<lparr>pt_updated_at := now\<rparr>)"
| "update_updated_at_column now (Record_row r) = Record_row (r\<lparr>pr_updated_at := now\<rparr>)"

fun assign :: "assignment \<Rightarrow> row \<Rightarrow> row" where
  "assign (Set_profile f) (Profile_row p) = Profile_row (f p)"
| "assign (Set_patient f) (Patient_row p) = Patient_row (f p)"
| "assign (Set_record f) (Record_row r) = Record_row (f r)"
| "assign a r = r"

definition update_target :: "uuid option \<Rightarrow> (row \<Rightarrow> bool) \<Rightarrow> row \<Rightarrow> bool" where
  "update_target caller wh r = (rls_using caller UPDATE r \<and> wh r)"

definition new_row :: "assignment \<Rightarrow> timestamptz \<Rightarrow> row \<Rightarrow> row" where
  "new_row a now r = update_updated_at_column now (assign a r)"

fun write_rows :: "assignment \<Rightarrow> (row \<Rightarrow> bool) \<Rightarrow> timestamptz \<Rightarrow> database \<Rightarrow> database" where
  "write_rows (Set_profile f) tgt now db =
     db\<lparr>public_profiles :=
          map (\<lambda>p. if tgt (Profile_row p) then (f p)\<lparr>pf_updated_at := now\<rparr> else p)
            (public_profiles db)\<rparr>"
| "write_rows (Set_patient f) tgt now db =
     db\<lparr>public_patients :=
          map (\<lambda>p. if tgt (Patient_row p) then (f p)\<lparr>pt_updated_at := now\<rparr> else p)
            (public_patients db)\<rparr>"
| "write_rows (Set_record f) tgt now db =
     db\<lparr>public_patient_records :=
          map (\<lambda>r. if tgt (Record_row r) then (f r)\<lparr>pr_updated_at := now\<rparr> else r)
            (public_patient_records db)\<rparr>"

definition sql_update ::
  "uuid option \<Rightarrow> assignment \<Rightarrow> (row \<Rightarrow> bool) \<Rightarrow> timestamptz \<Rightarrow> database \<Rightarrow> sql_error + database"
where
  "sql_update caller a wh now db =
     (let targets = filter (update_target caller wh) (table_rows (assignment_table a) db);
          db' = write_rows a (update_target caller wh) now db
      in if \<not> list_all (\<lambda>r. row_text_ok (new_row a now r)) targets
         then Inl Untranslatable_character
         else if \<not> list_all (\<lambda>r. rls_check caller UPDATE (new_row a now r)) targets
         then Inl Row_security_violation
         else if \<not> constraints_ok db' then Inl Constraint_violation
         else Inr db')"

text \<open>
  \<^verbatim>\<open>DELETE FROM t WHERE ...\<close>. The rows the caller may not delete are skipped. The
  patient records name their patient \<^verbatim>\<open>ON DELETE CASCADE\<close> (line 61): the records
  of a deleted patient go with it, whoever they belong to. No table refers to the
  profiles or to the patient records.
\<close>

definition delete_target :: "uuid option \<Rightarrow> (row \<Rightarrow> bool) \<Rightarrow> row \<Rightarrow> bool" where
  "delete_target caller wh r = (rls_using caller DELETE r \<and> wh r)"

definition deleted_patient_ids :: "uuid option \<Rightarrow> (row \<Rightarrow> bool) \<Rightarrow> database \<Rightarrow> uuid list" where
  "deleted_patient_ids caller wh db =
     map pt_id (filter (\<lambda>p. delete_target caller wh (Patient_row p)) (public_patients db))"

definition cascade_patients :: "uuid list \<Rightarrow> database \<Rightarrow> database" where
  "cascade_patients deleted db =
     db\<lparr>public_patient_records :=
          filter (\<lambda>r. pr_patient_id r \<notin> set deleted) (public_patient_records db)\<rparr>"

fun sql_delete :: "uuid option \<Rightarrow> table_name \<Rightarrow> (row \<Rightarrow> bool) \<Rightarrow> database \<Rightarrow> database" where
  "sql_delete caller Profiles wh db =
     db\<lparr>public_profiles :=
          filter (\<lambda>p. \<not> delete_target caller wh (Profile_row p)) (public_profiles db)\<rparr>"
| "sql_delete caller Patients wh db =
     cascade_patients (deleted_patient_ids caller wh db)
       (db\<lparr>public_patients :=
             filter (\<lambda>p. \<not> delete_target caller wh (Patient_row p)) (public_patients db)\<rparr>)"
| "sql_delete caller Patient_records wh db =
     db\<lparr>public_patient_records :=
          filter (\<lambda>r. \<not> delete_target caller wh (Record_row r)) (public_patient_records db)\<rparr>"

text \<open>The rows of a table that belong to a user, and the condition \<^verbatim>\<open>WHERE id = i\<close>.\<close>

definition own_rows :: "uuid \<Rightarrow> table_name \<Rightarrow> database \<Rightarrow> row list" where
  "own_rows u t db = filter (\<lambda>r. owner r = u) (table_rows t db)"

definition id_is :: "uuid \<Rightarrow> row \<Rightarrow> bool" where
  "id_is i r = (col Id r = Uuid i)"



subsection \<open>Signing up and leaving\<close>

text \<open>
  The operator \<^verbatim>\<open>->> 'key'\<close> of line 118: the field of a JSON object as text, and
  NULL when the value is no object, has no such field, or holds JSON null there.
\<close>

definition json_get_text :: "jsonb option \<Rightarrow> string \<Rightarrow> string option" where
  "json_get_text j k =
     (case j of
        None \<Rightarrow> None
      | Some JNotObject \<Rightarrow> None
      | Some (JObject kvs) \<Rightarrow>
          (case map_of kvs k of
             None \<Rightarrow> None
           | Some JNull \<Rightarrow> None
           | Some (JString s) \<Rightarrow> Some s
           | Some (JOther s) \<Rightarrow> Some s))"

definition coalesce :: "'a option \<Rightarrow> 'a \<Rightarrow> 'a" where
  "coalesce x d = (case x of None \<Rightarrow> d | Some v \<Rightarrow> v)"

text \<open>The default name of line 118; its fifth character is U+00F3.\<close>

definition default_full_name :: string where
  "default_full_name = ''Psic'' @ [CHR 0xF3] @ ''logo(a)''"

text \<open>
  \<^verbatim>\<open>handle_new_user\<close>, lines 114 to 121. It is \<^verbatim>\<open>SECURITY DEFINER\<close>: its insert
  runs as the owner of the function and is not subject to the policies. The row it
  inserts comes first; the columns it does not name take their defaults.
\<close>

definition new_profile :: "auth_user \<Rightarrow> timestamptz \<Rightarrow> profile" where
  "new_profile NEW now =
     \<lparr>pf_id = au_id NEW,
      pf_full_name =
        coalesce (json_get_text (au_raw_user_meta_data NEW) ''full_name'') default_full_name,
      pf_crp = None, pf_phone = None, pf_created_at = now, pf_updated_at = now\<rparr>"

definition handle_new_user :: "auth_user \<Rightarrow> timestamptz \<Rightarrow> database \<Rightarrow> sql_error + database" where
  "handle_new_user NEW now db =
     (let db' = add_row (Profile_row (new_profile NEW now)) db
      in if \<not> row_text_ok (Profile_row (new_profile NEW now)) then Inl Untranslatable_character
         else if constraints_ok db' then Inr db' else Inl Constraint_violation)"

text \<open>
  An insert into \<^verbatim>\<open>auth.users\<close> by the identity service, with the trigger
  \<^verbatim>\<open>on_auth_user_created\<close> of lines 123 to 125 after it. Metadata that is no
  \<^verbatim>\<open>jsonb\<close> value is refused, and an error in the trigger aborts the insert.
\<close>

definition insert_auth_user :: "auth_user \<Rightarrow> timestamptz \<Rightarrow> database \<Rightarrow> sql_error + database" where
  "insert_auth_user NEW now db =
     (let db1 = db\<lparr>auth_users := auth_users db @ [NEW]\<rparr>
      in if \<not> jsonb_ok (au_raw_user_meta_data NEW) then Inl Untranslatable_character
         else if \<not> constraints_ok db1 then Inl Constraint_violation
         else handle_new_user NEW now db1)"

text \<open>
  The removal of a user: every reference to \<^verbatim>\<open>auth.users\<close> is
  \<^verbatim>\<open>ON DELETE CASCADE\<close> (lines 3, 27 and 62), and so is the reference of the records to
  the patients removed on the way (line 61).
\<close>

definition delete_auth_user :: "uuid \<Rightarrow> database \<Rightarrow> database" where
  "delete_auth_user u db =
     (let gone = filter (\<lambda>p. pt_psychologist_id p = u) (public_patients db)
      in cascade_patients (map pt_id gone)
           \<lparr>auth_users = filter (\<lambda>x. au_id x \<noteq> u) (auth_users db),
            public_profiles = filter (\<lambda>p. pf_id p \<noteq> u) (public_profiles db),
            public_patients = filter (\<lambda>p. pt_psychologist_id p \<noteq> u) (public_patients db),
            public_patient_records =
              filter (\<lambda>r. pr_psychologist_id r \<noteq> u) (public_patient_records db)\<rparr>)"

text \<open>The words of the specification: every user has a profile.\<close>

definition every_user_has_profile :: "database \<Rightarrow> bool" where
  "every_user_has_profile db =
     list_all (\<lambda>x. au_id x \<in> set (map pf_id (public_profiles db))) (auth_users db)"

section \<open>The queries of the page components\<close>

text \<open>
  A call of the generated client: the table of \<^verbatim>\<open>from\<close>, the statement it becomes,
  whether it asks for the count only (\<^verbatim>\<open>count: 'exact', head: true\<close>), its
  \<^verbatim>\<open>eq\<close> filters, \<^verbatim>\<open>order\<close>, \<^verbatim>\<open>limit\<close> and \<^verbatim>\<open>maybeSingle\<close>. A filter
  compares a column with a string literal, with the \<^verbatim>\<open>id\<close> of the route
  \<^verbatim>\<open>/patients/:id\<close>, or with \<^verbatim>\<open>user.id\<close>.
\<close>

datatype operand = Literal string | Route_id | User_id

record query =
  q_from :: table_name
  q_command :: command
  q_count_head :: bool
  q_eq :: "(column \<times> operand) list"
  q_order :: "(column \<times> bool) option"
  q_limit :: "nat option"
  q_maybeSingle :: bool

definition select_all :: "table_name \<Rightarrow> query" where
  "select_all t =
     \<lparr>q_from = t, q_command = SELECT, q_count_head = False, q_eq = [], q_order = None,
      q_limit = None, q_maybeSingle = False\<rparr>"

definition insert_into :: "table_name \<Rightarrow> query" where
  "insert_into t = (select_all t)\<lparr>q_command := INSERT\<rparr>"

text \<open>Dashboard, \<^verbatim>\<open>fetchDashboardData\<close>, lines 43 to 63.\<close>

definition dashboard_recent_patients :: query where
  "dashboard_recent_patients =
     (select_all Patients)\<lparr>q_order := Some (Created_at, False), q_limit := Some 5\<rparr>"

definition dashboard_totalPatients :: query where
  "dashboard_totalPatients = (select_all Patients)\<lparr>q_count_head := True\<rparr>"

definition dashboard_activePatients :: query where
  "dashboard_activePatients =
     (select_all Patients)\<lparr>q_count_head := True, q_eq := [(Status, Literal ''active'')]\<rparr>"

definition dashboard_totalRecords :: query where
  "dashboard_totalRecords = (select_all Patient_records)\<lparr>q_count_head := True\<rparr>"

text \<open>Patients, \<^verbatim>\<open>fetchPatients\<close>, lines 45 to 48.\<close>

definition patients_list :: query where
  "patients_list = (select_all Patients)\<lparr>q_order := Some (Full_name, True)\<rparr>"

text \<open>PatientDetail, \<^verbatim>\<open>fetchPatientData\<close>, lines 87 to 92.\<close>

definition detail_patient :: query where
  "detail_patient = (select_all Patients)\<lparr>q_eq := [(Id, Route_id)], q_maybeSingle := True\<rparr>"

definition detail_records :: query where
  "detail_records =
     (select_all Patient_records)\<lparr>q_eq := [(Patient_id, Route_id)],
        q_order := Some (Session_date, False)\<rparr>"

text \<open>
  The two writes: \<^verbatim>\<open>handleCreateRecord\<close> of PatientDetail (line 128) and
  \<^verbatim>\<open>handleSubmit\<close> of NewPatient (lines 52 to 68). The Auth page and the sidebar call
  the sign-in, sign-up and sign-out of the identity service and no table.
\<close>

definition detail_create_record :: query where
  "detail_create_record = insert_into Patient_records"

definition new_patient_insert :: query where
  "new_patient_insert = insert_into Patients"

definition read_queries :: "query list" where
  "read_queries =
     [dashboard_recent_patients, dashboard_totalPatients, dashboard_activePatients,
      dashboard_totalRecords, patients_list, detail_patient, detail_records]"

definition page_queries :: "query list" where
  "page_queries = read_queries @ [detail_create_record, new_patient_insert]"

text \<open>Whether some page component issues a given command on a given table.\<close>

definition issues :: "table_name \<Rightarrow> command \<Rightarrow> bool" where
  "issues t c = list_ex (\<lambda>q. q_from q = t \<and> q_command q = c) page_queries"

subsection \<open>What a read returns\<close>

text \<open>
  Text is ordered by its code units, which stands for the collation of the database.
  NULL sorts as larger than every value, and values of different types do not compare.
\<close>

fun text_le :: "string \<Rightarrow> string \<Rightarrow> bool" where
  "text_le [] t = True"
| "text_le (a # s) [] = False"
| "text_le (a # s) (b # t) =
     ((of_char a :: nat) < of_char b \<or> (a = b \<and> text_le s t))"

fun val_le :: "val \<Rightarrow> val \<Rightarrow> bool" where
  "val_le x Null = True"
| "val_le Null y = False"
| "val_le (Uuid a) (Uuid b) = (a \<le> b)"
| "val_le (Text a) (Text b) = text_le a b"
| "val_le (Day a) (Day b) = (a \<le> b)"
| "val_le (Time a) (Time b) = (a \<le> b)"
| "val_le x y = False"

fun insert_sorted :: "('a \<Rightarrow> 'a \<Rightarrow> bool) \<Rightarrow> 'a \<Rightarrow> 'a list \<Rightarrow> 'a list" where
  "insert_sorted le x [] = [x]"
| "insert_sorted le x (y # ys) = (if le x y then x # y # ys else y # insert_sorted le x ys)"

definition sort_with :: "('a \<Rightarrow> 'a \<Rightarrow> bool) \<Rightarrow> 'a list \<Rightarrow> 'a list" where
  "sort_with le xs = foldr (insert_sorted le) xs []"

definition order_by :: "column \<Rightarrow> bool \<Rightarrow> row list \<Rightarrow> row list" where
  "order_by c ascending rows =
     (if ascending then sort_with (\<lambda>x y. val_le (col c x) (col c y)) rows
      else sort_with (\<lambda>x y. val_le (col c y) (col c x)) rows)"

definition uuid_or_null :: "uuid option \<Rightarrow> val" where
  "uuid_or_null x = (case x of None \<Rightarrow> Null | Some u \<Rightarrow> Uuid u)"

fun operand_val :: "uuid option \<Rightarrow> uuid option \<Rightarrow> operand \<Rightarrow> val" where
  "operand_val user route_id (Literal s) = Text s"
| "operand_val user route_id Route_id = uuid_or_null route_id"
| "operand_val user route_id User_id = uuid_or_null user"

definition sql_eq :: "val \<Rightarrow> val \<Rightarrow> bool" where
  "sql_eq x y = (x \<noteq> Null \<and> y \<noteq> Null \<and> x = y)"

definition matches_eq :: "uuid option \<Rightarrow> uuid option \<Rightarrow> (column \<times> operand) list \<Rightarrow> row \<Rightarrow> bool" where
  "matches_eq user route_id eqs r = list_all (\<lambda>(c, v). sql_eq (col c r) (operand_val user route_id v)) eqs"

datatype response = Rows "row list" | Count nat | Single "row option" | Failed

text \<open>
  The answer to a read, step by step: the rows of the table that the backend lets the
  caller see and that pass the filters; their order; the limit; and the form of the
  response. The count is the exact count of the matching rows. \<^verbatim>\<open>maybeSingle\<close> gives
  the row, null when there is none, and an error when there are several.
\<close>

definition matching ::
  "(table_name \<Rightarrow> row list) \<Rightarrow> uuid option \<Rightarrow> uuid option \<Rightarrow> query \<Rightarrow> row list" where
  "matching backend user route_id q =
     filter (matches_eq user route_id (q_eq q)) (backend (q_from q))"

definition ordered :: "query \<Rightarrow> row list \<Rightarrow> row list" where
  "ordered q rows = (case q_order q of None \<Rightarrow> rows | Some (c, asc) \<Rightarrow> order_by c asc rows)"

definition limited :: "query \<Rightarrow> row list \<Rightarrow> row list" where
  "limited q rows = (case q_limit q of None \<Rightarrow> rows | Some n \<Rightarrow> take n rows)"

definition maybeSingle :: "row list \<Rightarrow> response" where
  "maybeSingle rows = (case rows of [] \<Rightarrow> Single None | [r] \<Rightarrow> Single (Some r) | _ \<Rightarrow> Failed)"

definition run_select ::
  "(table_name \<Rightarrow> row list) \<Rightarrow> uuid option \<Rightarrow> uuid option \<Rightarrow> query \<Rightarrow> response" where
  "run_select backend user route_id q =
     (let found = matching backend user route_id q;
          rows = limited q (ordered q found)
      in if q_count_head q then Count (length found)
         else if q_maybeSingle q then maybeSingle rows
         else Rows rows)"

fun response_rows :: "response \<Rightarrow> row list" where
  "response_rows (Rows rs) = rs"
| "response_rows (Single (Some r)) = [r]"
| "response_rows other = []"

text \<open>The backend as the database serves it to a caller, under the policies.\<close>

definition rls_backend :: "uuid option \<Rightarrow> database \<Rightarrow> table_name \<Rightarrow> row list" where
  "rls_backend caller db t = sql_select caller t db"

text \<open>A backend that shows a caller the rows a given rule admits, and one with no rule.\<close>

definition backend_with :: "(row \<Rightarrow> bool) \<Rightarrow> database \<Rightarrow> table_name \<Rightarrow> row list" where
  "backend_with visible db t = filter visible (table_rows t db)"

definition unrestricted :: "row \<Rightarrow> bool" where
  "unrestricted r = True"

section \<open>The page components\<close>

text \<open>
  A page runs against a backend, the signed-in user of \<^verbatim>\<open>useAuth\<close> (\<open>None\<close> when
  nobody is signed in) and, on the detail page, the \<^verbatim>\<open>id\<close> of the route. The state
  a fetch leaves is what the response holds; an absent response leaves the empty list.
\<close>

definition fetchPatients :: "(table_name \<Rightarrow> row list) \<Rightarrow> uuid option \<Rightarrow> row list" where
  "fetchPatients backend user = response_rows (run_select backend user None patients_list)"

record dashboard =
  recentPatients :: "row list"
  totalPatients :: response
  activePatients :: response
  totalRecords :: response

definition fetchDashboardData :: "(table_name \<Rightarrow> row list) \<Rightarrow> uuid option \<Rightarrow> dashboard" where
  "fetchDashboardData backend user =
     \<lparr>recentPatients = response_rows (run_select backend user None dashboard_recent_patients),
      totalPatients = run_select backend user None dashboard_totalPatients,
      activePatients = run_select backend user None dashboard_activePatients,
      totalRecords = run_select backend user None dashboard_totalRecords\<rparr>"

text \<open>
  \<^verbatim>\<open>fetchPatientData\<close>, lines 84 to 115 of PatientDetail: an error of either query
  gives the toast and leaves the state; with no patient the page navigates to
  \<^verbatim>\<open>/patients\<close> and stores nothing (lines 98 to 101); otherwise it stores the
  patient and the records. \<^verbatim>\<open>maybeSingle\<close> gives no other form of response.
\<close>

datatype detail = Loaded row "row list" | To_patients | Load_error

definition fetchPatientData ::
  "(table_name \<Rightarrow> row list) \<Rightarrow> uuid option \<Rightarrow> uuid \<Rightarrow> detail" where
  "fetchPatientData backend user route_id =
     (let patientRes = run_select backend user (Some route_id) detail_patient;
          recordsRes = run_select backend user (Some route_id) detail_records
      in if patientRes = Failed \<or> recordsRes = Failed then Load_error
         else (case patientRes of
                 Single (Some p) \<Rightarrow> Loaded p (response_rows recordsRes)
               | _ \<Rightarrow> To_patients))"

subsection \<open>The inserts of the generated API\<close>

text \<open>
  The object a page hands to \<^verbatim>\<open>insert\<close>: NewPatient lines 54 to 66, PatientDetail
  lines 128 to 139. A date travels as text.
\<close>

record patients_insert =
  pi_psychologist_id :: uuid
  pi_full_name :: string
  pi_email :: "string option"
  pi_phone :: "string option"
  pi_birth_date :: "string option"
  pi_cpf :: "string option"
  pi_address :: "string option"
  pi_emergency_contact :: "string option"
  pi_emergency_phone :: "string option"
  pi_notes :: "string option"
  pi_status :: "string option"


text \<open>
  What the database does with such an object. The way it reads a date from text is its
  own and is a parameter, \<open>date_in\<close>; so are the value of \<^verbatim>\<open>gen_random_uuid()\<close>
  and of \<^verbatim>\<open>now()\<close>, the defaults of the columns the object leaves out.
\<close>

definition patients_row ::
  "patients_insert \<Rightarrow> date option \<Rightarrow> uuid \<Rightarrow> timestamptz \<Rightarrow> patient" where
  "patients_row x birth_date new_id now =
     \<lparr>pt_id = new_id, pt_psychologist_id = pi_psychologist_id x,
      pt_full_name = pi_full_name x, pt_email = pi_email x, pt_phone = pi_phone x,
      pt_birth_date = birth_date, pt_cpf = pi_cpf x, pt_address = pi_address x,
      pt_emergency_contact = pi_emergency_contact x,
      pt_emergency_phone = pi_emergency_phone x, pt_notes = pi_notes x,
      pt_status = pi_status x, pt_created_at = now, pt_updated_at = now\<rparr>"


text \<open>
  \<^verbatim>\<open>insert(...).select().single()\<close>: the row comes back, which the caller must be
  allowed to read, or the statement fails as a whole.
\<close>

definition api_insert_patient ::
  "(string \<Rightarrow> date option) \<Rightarrow> uuid option \<Rightarrow> patients_insert \<Rightarrow> uuid \<Rightarrow> timestamptz
     \<Rightarrow> database \<Rightarrow> sql_error + patient \<times> database" where
  "api_insert_patient date_in caller x new_id now db =
     (case (case pi_birth_date x of
              None \<Rightarrow> Some None
            | Some s \<Rightarrow> (case date_in s of None \<Rightarrow> None | Some d \<Rightarrow> Some (Some d))) of
        None \<Rightarrow> Inl Invalid_date
      | Some birth_date \<Rightarrow>
          (let r = patients_row x birth_date new_id now
           in case sql_insert caller (Patient_row r) db of
                Inl e \<Rightarrow> Inl e
              | Inr db' \<Rightarrow>
                  if rls_using caller SELECT (Patient_row r) then Inr (r, db')
                  else Inl Row_security_violation))"


subsection \<open>NewPatient: submitting the form\<close>

record formData =
  fd_full_name :: string
  fd_email :: string
  fd_phone :: string
  fd_birth_date :: string
  fd_cpf :: string
  fd_address :: string
  fd_emergency_contact :: string
  fd_emergency_phone :: string
  fd_notes :: string
  fd_status :: string

text \<open>\<^verbatim>\<open>s || null\<close>: the empty string is the one falsy string.\<close>

definition or_null :: "string \<Rightarrow> string option" where
  "or_null s = (if s = [] then None else Some s)"

datatype toast =
    Nome_obrigatorio | Paciente_cadastrado | Erro_ao_cadastrar
  | Prontuario_criado | Erro_ao_criar_prontuario

text \<open>
  What a submission does: the toast it shows, the patient page it navigates to, the
  object of the insert it issued, and the database after it.
\<close>

record submission =
  sb_toast :: "toast option"
  sb_navigate :: "uuid option"
  sb_insert :: "patients_insert option"
  sb_database :: database

definition new_patient_payload :: "uuid \<Rightarrow> formData \<Rightarrow> patients_insert" where
  "new_patient_payload user_id formData =
     \<lparr>pi_psychologist_id = user_id,
      pi_full_name = trim (fd_full_name formData),
      pi_email = or_null (fd_email formData),
      pi_phone = or_null (fd_phone formData),
      pi_birth_date = or_null (fd_birth_date formData),
      pi_cpf = or_null (fd_cpf formData),
      pi_address = or_null (fd_address formData),
      pi_emergency_contact = or_null (fd_emergency_contact formData),
      pi_emergency_phone = or_null (fd_emergency_phone formData),
      pi_notes = or_null (fd_notes formData),
      pi_status = Some (fd_status formData)\<rparr>"

text \<open>
  \<^verbatim>\<open>handleSubmit\<close>, lines 36 to 88 of NewPatient. The request carries the session of
  the signed-in user, so the caller the database sees is that user.
\<close>

definition handleSubmit ::
  "(string \<Rightarrow> date option) \<Rightarrow> uuid option \<Rightarrow> formData \<Rightarrow> uuid \<Rightarrow> timestamptz \<Rightarrow> database
     \<Rightarrow> submission" where
  "handleSubmit date_in user formData new_id now db =
     (case user of
        None \<Rightarrow> \<lparr>sb_toast = None, sb_navigate = None, sb_insert = None, sb_database = db\<rparr>
      | Some user_id \<Rightarrow>
          if trim (fd_full_name formData) = [] then
            \<lparr>sb_toast = Some Nome_obrigatorio, sb_navigate = None, sb_insert = None,
             sb_database = db\<rparr>
          else
            (let payload = new_patient_payload user_id formData
             in case api_insert_patient date_in (Some user_id) payload new_id now db of
                  Inl e \<Rightarrow>
                    \<lparr>sb_toast = Some Erro_ao_cadastrar, sb_navigate = None,
                     sb_insert = Some payload, sb_database = db\<rparr>
                | Inr (r, db') \<Rightarrow>
                    \<lparr>sb_toast = Some Paciente_cadastrado, sb_navigate = Some (pt_id r),
                     sb_insert = Some payload, sb_database = db'\<rparr>))"

text \<open>
  The words of the specification for the optional fields: each one whose input is the
  empty string is null, in the object of the insert and in the stored row.
\<close>

definition empty_inputs_null :: "formData \<Rightarrow> patients_insert \<Rightarrow> bool" where
  "empty_inputs_null fd x =
     ((fd_email fd = [] \<longrightarrow> pi_email x = None)
      \<and> (fd_phone fd = [] \<longrightarrow> pi_phone x = None)
      \<and> (fd_birth_date fd = [] \<longrightarrow> pi_birth_date x = None)
      \<and> (fd_cpf fd = [] \<longrightarrow> pi_cpf x = None)
      \<and> (fd_address fd = [] \<longrightarrow> pi_address x = None)
      \<and> (fd_emergency_contact fd = [] \<longrightarrow> pi_emergency_contact x = None)
      \<and> (fd_emergency_phone fd = [] \<longrightarrow> pi_emergency_phone x = None)
      \<and> (fd_notes fd = [] \<longrightarrow> pi_notes x = None))"

definition empty_inputs_stored_null :: "formData \<Rightarrow> patient \<Rightarrow> bool" where
  "empty_inputs_stored_null fd p =
     ((fd_email fd = [] \<longrightarrow> pt_email p = None)
      \<and> (fd_phone fd = [] \<longrightarrow> pt_phone p = None)
      \<and> (fd_birth_date fd = [] \<longrightarrow> pt_birth_date p = None)
      \<and> (fd_cpf fd = [] \<longrightarrow> pt_cpf p = None)
      \<and> (fd_address fd = [] \<longrightarrow> pt_address p = None)
      \<and> (fd_emergency_contact fd = [] \<longrightarrow> pt_emergency_contact p = None)
      \<and> (fd_emergency_phone fd = [] \<longrightarrow> pt_emergency_phone p = None)
      \<and> (fd_notes fd = [] \<longrightarrow> pt_notes p = None))"

text \<open>A form with no U+0000 in its text.\<close>

definition form_text_ok :: "formData \<Rightarrow> bool" where
  "form_text_ok fd =
     list_all text_ok
       [fd_full_name fd, fd_email fd, fd_phone fd, fd_birth_date fd, fd_cpf fd, fd_address fd,
        fd_emergency_contact fd, fd_emergency_phone fd, fd_notes fd, fd_status fd]"

subsection \<open>PatientDetail: creating a session record\<close>






section \<open>The Patients page: the search filter\<close>



















section \<open>Example data\<close>

text \<open>
  Two clinicians, Ana (user 1) and Bia (user 2), with their profiles; Carlos, a patient of
  Ana; and a session record that Bia writes against Carlos.
\<close>

definition ana :: auth_user where
  "ana = \<lparr>au_id = 1, au_raw_user_meta_data = Some (JObject [(''full_name'', JString ''Ana Lima'')])\<rparr>"

definition bia :: auth_user where
  "bia = \<lparr>au_id = 2, au_raw_user_meta_data = None\<rparr>"

definition profile_of_ana :: profile where
  "profile_of_ana =
     \<lparr>pf_id = 1, pf_full_name = ''Ana Lima'', pf_crp = None, pf_phone = None,
      pf_created_at = 0, pf_updated_at = 0\<rparr>"

definition profile_of_bia :: profile where
  "profile_of_bia =
     \<lparr>pf_id = 2, pf_full_name = default_full_name, pf_crp = None, pf_phone = None,
      pf_created_at = 1, pf_updated_at = 1\<rparr>"

definition carlos :: patient where
  "carlos =
     \<lparr>pt_id = 10, pt_psychologist_id = 1, pt_full_name = ''Carlos Souza'',
      pt_email = Some ''CARLOS@example.com'', pt_phone = None, pt_birth_date = None,
      pt_cpf = None, pt_address = None, pt_emergency_contact = None,
      pt_emergency_phone = None, pt_notes = None, pt_status = Some ''active'',
      pt_created_at = 2, pt_updated_at = 2\<rparr>"

definition session_by_bia :: patient_record where
  "session_by_bia =
     \<lparr>pr_id = 20, pr_patient_id = 10, pr_psychologist_id = 2, pr_session_date = 19000,
      pr_session_type = Some ''individual'', pr_main_complaint = None,
      pr_session_notes = None, pr_observations = None, pr_next_session_goals = None,
      pr_mood_state = None, pr_interventions = None, pr_created_at = 3,
      pr_updated_at = 3\<rparr>"

definition clinic :: database where
  "clinic =
     \<lparr>auth_users = [ana, bia], public_profiles = [profile_of_ana, profile_of_bia],
      public_patients = [carlos], public_patient_records = []\<rparr>"

definition clinic_with_session :: database where
  "clinic_with_session = clinic\<lparr>public_patient_records := [session_by_bia]\<rparr>"

text \<open>The database after Ana has signed up, and after Bia has.\<close>

definition only_ana :: database where
  "only_ana =
     \<lparr>auth_users = [ana], public_profiles = [profile_of_ana], public_patients = [],
      public_patient_records = []\<rparr>"

definition ana_and_bia :: database where
  "ana_and_bia =
     \<lparr>auth_users = [ana, bia], public_profiles = [profile_of_ana, profile_of_bia],
      public_patients = [], public_patient_records = []\<rparr>"


definition sets_phone :: assignment where
  "sets_phone = Set_profile (\<lambda>p. p\<lparr>pf_phone := Some ''555-1234''\<rparr>)"

definition clinic_after_update :: database where
  "clinic_after_update =
     clinic\<lparr>public_profiles :=
       [profile_of_ana, profile_of_bia\<lparr>pf_phone := Some ''555-1234'', pf_updated_at := 9\<rparr>]\<rparr>"

text \<open>
  A way of reading dates that knows one date; the form by which Ana registers Carlos,
  and the same form with a blank name.
\<close>

definition example_date_in :: "string \<Rightarrow> date option" where
  "example_date_in s = (if s = ''1990-05-17'' then Some 7441 else None)"

definition carlos_form :: formData where
  "carlos_form =
     \<lparr>fd_full_name = ''  Carlos Souza '', fd_email = ''CARLOS@example.com'', fd_phone = [],
      fd_birth_date = [], fd_cpf = [], fd_address = [], fd_emergency_contact = [],
      fd_emergency_phone = [], fd_notes = [], fd_status = ''active''\<rparr>"

definition blank_form :: formData where
  "blank_form = carlos_form\<lparr>fd_full_name := ''   ''\<rparr>"








section \<open>Properties of the policies\<close>

lemma rls_using_iff:
  "rls_using caller c r \<longleftrightarrow> caller = Some (owner r) \<and> c \<noteq> INSERT \<and> \<not> (table_of r = Profiles \<and> c = DELETE)"
  by (cases r; cases c; cases caller)
     (auto simp: rls_using_def policies_for_def policies_def passes_def)

lemma rls_check_iff:
  "rls_check caller c r \<longleftrightarrow> caller = Some (owner r) \<and> (c = INSERT \<or> c = UPDATE)"
  by (cases r; cases c; cases caller)
     (auto simp: rls_check_def policies_for_def policies_def passes_def)

lemma permitted_iff:
  "permitted caller c r \<longleftrightarrow> caller = Some (owner r) \<and> \<not> (table_of r = Profiles \<and> c = DELETE)"
  by (cases c) (auto simp: rls_using_iff rls_check_iff)

lemma policies_for_empty_iff:
  "policies_for t c = [] \<longleftrightarrow> t = Profiles \<and> c = DELETE"
  by (cases t; cases c) (simp_all add: policies_for_def policies_def)

lemma policy_keyed:
  "p \<in> set policies \<Longrightarrow> \<exists>c. references_auth_users (on_table p) = [c] \<and> policy_predicate p = Equals Auth_uid (Column c)"
  by (auto simp: policies_def policy_predicate_def)

lemma sql_select_own: "sql_select (Some u) t db = own_rows u t db"
proof -
  have "rls_using (Some u) SELECT = (\<lambda>r. owner r = u)"
    by (rule ext) (auto simp: rls_using_iff)
  then show ?thesis by (simp add: sql_select_def own_rows_def)
qed







text \<open>
  Claim C3, as stated: every one of the three tables has a check for each of the four
  commands, so that a clinician may apply each of them to their own rows. It fails for
  \<^verbatim>\<open>DELETE\<close> on the profiles: the migration creates no such policy, and Ana may not
  delete her own profile.
\<close>

theorem profiles_delete_denied:
  "policies_for Profiles DELETE = [] \<and> owner (Profile_row profile_of_ana) = 1
   \<and> \<not> permitted (Some 1) DELETE (Profile_row profile_of_ana)"
  by (simp add: policies_for_empty_iff permitted_iff profile_of_ana_def)

text \<open>
  Claim C3, amended. For every table and command other than \<^verbatim>\<open>DELETE\<close> on the
  profiles there is a policy; every policy of a table compares \<^verbatim>\<open>auth.uid()\<close> with
  the column of the table that refers to the user; and the user a row belongs to is
  permitted every command on it, \<^verbatim>\<open>DELETE\<close> on a profile apart. The profiles have no
  \<^verbatim>\<open>DELETE\<close> policy, and no caller may delete a profile row.
\<close>

theorem policies_per_command:
  "(policies_for t c \<noteq> [] \<longleftrightarrow> \<not> (t = Profiles \<and> c = DELETE))
   \<and> (\<forall>p \<in> set (policies_for t c).
         \<exists>k. references_auth_users t = [k] \<and> policy_predicate p = Equals Auth_uid (Column k))
   \<and> (permitted (Some (owner r)) c r \<longleftrightarrow> \<not> (table_of r = Profiles \<and> c = DELETE))
   \<and> \<not> permitted caller DELETE (Profile_row p)"
proof (intro conjI ballI)
  show "policies_for t c \<noteq> [] \<longleftrightarrow> \<not> (t = Profiles \<and> c = DELETE)"
    by (simp add: policies_for_empty_iff)
  show "\<exists>k. references_auth_users t = [k] \<and> policy_predicate q = Equals Auth_uid (Column k)"
    if "q \<in> set (policies_for t c)" for q
  proof -
    from that have "q \<in> set policies" and "on_table q = t" by (simp_all add: policies_for_def)
    then show ?thesis using policy_keyed by blast
  qed
  show "permitted (Some (owner r)) c r \<longleftrightarrow> \<not> (table_of r = Profiles \<and> c = DELETE)"
    by (simp add: permitted_iff)
  show "\<not> permitted caller DELETE (Profile_row p)"
    by (simp add: permitted_iff)
qed

theorem policies_per_command_witness:
  "policies_for Patients DELETE \<noteq> []
   \<and> (\<exists>k. references_auth_users Patients = [k]
          \<and> policy_predicate (hd (policies_for Patients DELETE)) = Equals Auth_uid (Column k))
   \<and> permitted (Some 1) DELETE (Patient_row carlos)
   \<and> \<not> permitted (Some 1) DELETE (Profile_row profile_of_ana)"
proof -
  have "hd (policies_for Patients DELETE) \<in> set (policies_for Patients DELETE)"
    by (simp add: policies_for_def policies_def)
  then show ?thesis
    using policies_per_command[of Patients DELETE "Patient_row carlos" "Some 1" profile_of_ana]
    by (simp add: carlos_def)
qed

lemma session_by_bia_text_ok: "row_text_ok (Record_row session_by_bia)"
  by (simp add: session_by_bia_def text_option_ok_def text_ok_def)

lemma clinic_with_session_ok: "constraints_ok clinic_with_session"
  by (simp add: constraints_ok_def primary_keys_ok_def foreign_keys_ok_def checks_ok_def
      clinic_with_session_def clinic_def user_ids_def patient_ids_def ana_def bia_def
      profile_of_ana_def profile_of_bia_def carlos_def session_by_bia_def
      status_check_def session_type_check_def)





lemma clinic_ok: "constraints_ok clinic"
  by (simp add: constraints_ok_def primary_keys_ok_def foreign_keys_ok_def checks_ok_def
      clinic_def user_ids_def patient_ids_def ana_def bia_def
      profile_of_ana_def profile_of_bia_def carlos_def status_check_def)

lemma clinic_after_update_ok: "constraints_ok clinic_after_update"
  by (simp add: constraints_ok_def primary_keys_ok_def foreign_keys_ok_def checks_ok_def
      clinic_after_update_def clinic_def user_ids_def patient_ids_def ana_def bia_def
      profile_of_ana_def profile_of_bia_def carlos_def status_check_def)

lemma bia_inserts_session: "sql_insert (Some 2) (Record_row session_by_bia) clinic = Inr clinic_with_session"
proof -
  have "add_row (Record_row session_by_bia) clinic = clinic_with_session"
    by (simp add: clinic_with_session_def clinic_def)
  moreover have "rls_check (Some 2) INSERT (Record_row session_by_bia)"
    by (simp add: rls_check_iff session_by_bia_def)
  ultimately show ?thesis
    using clinic_with_session_ok session_by_bia_text_ok by (simp add: sql_insert_def)
qed

lemma bia_sets_phone: "sql_update (Some 2) sets_phone (id_is 2) 9 clinic = Inr clinic_after_update"
proof -
  have tgt: "update_target (Some 2) (id_is 2) (Profile_row profile_of_bia)"
    "\<not> update_target (Some 2) (id_is 2) (Profile_row profile_of_ana)"
    by (simp_all add: update_target_def rls_using_iff id_is_def profile_of_bia_def profile_of_ana_def)
  then have w: "write_rows sets_phone (update_target (Some 2) (id_is 2)) 9 clinic = clinic_after_update"
    by (simp add: sets_phone_def clinic_def clinic_after_update_def)
  have "rls_check (Some 2) UPDATE (new_row sets_phone 9 (Profile_row profile_of_bia))"
    by (simp add: rls_check_iff new_row_def sets_phone_def profile_of_bia_def)
  with tgt have c: "list_all (\<lambda>r. rls_check (Some 2) UPDATE (new_row sets_phone 9 r))
     (filter (update_target (Some 2) (id_is 2)) (table_rows (assignment_table sets_phone) clinic))"
    by (simp add: sets_phone_def clinic_def)
  have "row_text_ok (new_row sets_phone 9 (Profile_row profile_of_bia))"
    by (simp add: new_row_def sets_phone_def profile_of_bia_def text_option_ok_def text_ok_def
        default_full_name_def)
  with tgt have "list_all (\<lambda>r. row_text_ok (new_row sets_phone 9 r))
     (filter (update_target (Some 2) (id_is 2)) (table_rows (assignment_table sets_phone) clinic))"
    by (simp add: sets_phone_def clinic_def)
  with c w clinic_after_update_ok show ?thesis
    by (simp add: sql_update_def Let_def)
qed




lemma owner_column:
  "references_auth_users (table_of r) = [k] \<Longrightarrow> col k r = Uuid (owner r)"
  by (cases r) auto

lemma map_owner_unchanged:
  assumes "\<And>x. x \<in> set xs \<Longrightarrow> owner (h (g x)) = owner (h x)"
  shows "map owner (map h (map g xs)) = map owner (map h xs)"
  using assms by (induction xs) simp_all

lemma update_keeps_owner:
  assumes "sql_update caller a wh now db = Inr db'"
  shows "map owner (table_rows t db') = map owner (table_rows t db)"
proof -
  let ?tgt = "update_target caller wh"
  from assms have db': "db' = write_rows a ?tgt now db"
    and chk: "list_all (\<lambda>r. rls_check caller UPDATE (new_row a now r))
                (filter ?tgt (table_rows (assignment_table a) db))"
    by (auto simp: sql_update_def Let_def split: if_splits)
  have same: "owner (new_row a now r) = owner r"
    if "r \<in> set (table_rows (assignment_table a) db)" and "?tgt r" for r
  proof -
    from chk that have "rls_check caller UPDATE (new_row a now r)"
      by (auto simp: list_all_iff)
    then have "caller = Some (owner (new_row a now r))" by (simp add: rls_check_iff)
    moreover from that(2) have "caller = Some (owner r)"
      by (simp add: update_target_def rls_using_iff)
    ultimately show ?thesis by simp
  qed
  show ?thesis
  proof (cases a)
    case (Set_profile f)
    have "map owner (map Profile_row
            (map (\<lambda>p. if ?tgt (Profile_row p) then (f p)\<lparr>pf_updated_at := now\<rparr> else p)
               (public_profiles db)))
          = map owner (map Profile_row (public_profiles db))"
    proof (rule map_owner_unchanged)
      fix p assume "p \<in> set (public_profiles db)"
      then have "Profile_row p \<in> set (table_rows (assignment_table a) db)"
        using Set_profile by simp
      from same[OF this] Set_profile
      show "owner (Profile_row (if ?tgt (Profile_row p) then (f p)\<lparr>pf_updated_at := now\<rparr> else p))
            = owner (Profile_row p)"
        by (auto simp: new_row_def)
    qed
    with Set_profile db' show ?thesis by (cases t) simp_all
  next
    case (Set_patient f)
    have "map owner (map Patient_row
            (map (\<lambda>p. if ?tgt (Patient_row p) then (f p)\<lparr>pt_updated_at := now\<rparr> else p)
               (public_patients db)))
          = map owner (map Patient_row (public_patients db))"
    proof (rule map_owner_unchanged)
      fix p assume "p \<in> set (public_patients db)"
      then have "Patient_row p \<in> set (table_rows (assignment_table a) db)"
        using Set_patient by simp
      from same[OF this] Set_patient
      show "owner (Patient_row (if ?tgt (Patient_row p) then (f p)\<lparr>pt_updated_at := now\<rparr> else p))
            = owner (Patient_row p)"
        by (auto simp: new_row_def)
    qed
    with Set_patient db' show ?thesis by (cases t) simp_all
  next
    case (Set_record f)
    have "map owner (map Record_row
            (map (\<lambda>p. if ?tgt (Record_row p) then (f p)\<lparr>pr_updated_at := now\<rparr> else p)
               (public_patient_records db)))
          = map owner (map Record_row (public_patient_records db))"
    proof (rule map_owner_unchanged)
      fix p assume "p \<in> set (public_patient_records db)"
      then have "Record_row p \<in> set (table_rows (assignment_table a) db)"
        using Set_record by simp
      from same[OF this] Set_record
      show "owner (Record_row (if ?tgt (Record_row p) then (f p)\<lparr>pr_updated_at := now\<rparr> else p))
            = owner (Record_row p)"
        by (auto simp: new_row_def)
    qed
    with Set_record db' show ?thesis by (cases t) simp_all
  qed
qed

lemma policy_key_is_owner:
  assumes "p \<in> set policies" and "table_of r = on_table p"
  shows "eval_predicate caller r (policy_predicate p) = Some True \<longleftrightarrow> caller = Some (owner r)"
proof -
  from assms(1) obtain k where k: "references_auth_users (on_table p) = [k]"
    and q: "policy_predicate p = Equals Auth_uid (Column k)"
    using policy_keyed by blast
  from k assms(2) have "col k r = Uuid (owner r)" by (simp add: owner_column)
  with q show ?thesis by (cases caller) auto
qed

lemma policy_patient_key:
  "p \<in> set policies \<Longrightarrow> on_table p \<noteq> Profiles \<Longrightarrow>
     policy_predicate p = Equals Auth_uid (Column Psychologist_id)"
  by (auto simp: policies_def policy_predicate_def)

text \<open>
  Claim C2. Every policy of the migration has for predicate the equality of
  \<^verbatim>\<open>auth.uid()\<close> with the one column of its table that refers to the user: the
  \<^verbatim>\<open>psychologist_id\<close> of the patients and patient records, the \<^verbatim>\<open>id\<close> of the
  profiles. A row passes it exactly when the caller is the user it belongs to. That user
  is the one who created the row, since an insert is accepted only with the caller in
  that column, and no update changes the column.
\<close>

theorem policies_keyed_on_owner:
  "(\<forall>p \<in> set policies.
      (\<exists>k. references_auth_users (on_table p) = [k]
           \<and> policy_predicate p = Equals Auth_uid (Column k))
      \<and> (on_table p \<noteq> Profiles
           \<longrightarrow> policy_predicate p = Equals Auth_uid (Column Psychologist_id))
      \<and> (table_of r = on_table p
           \<longrightarrow> (eval_predicate caller r (policy_predicate p) = Some True
                 \<longleftrightarrow> caller = Some (owner r))))
   \<and> (sql_insert (Some u) r db = Inr db1 \<longrightarrow> owner r = u)
   \<and> (sql_update caller a wh now db = Inr db2
        \<longrightarrow> map owner (table_rows t db2) = map owner (table_rows t db))"
proof (intro conjI ballI impI)
  fix p assume p: "p \<in> set policies"
  from p show "\<exists>k. references_auth_users (on_table p) = [k]
           \<and> policy_predicate p = Equals Auth_uid (Column k)" by (rule policy_keyed)
  show "policy_predicate p = Equals Auth_uid (Column Psychologist_id)" if "on_table p \<noteq> Profiles"
    using p that by (rule policy_patient_key)
  show "eval_predicate caller r (policy_predicate p) = Some True \<longleftrightarrow> caller = Some (owner r)"
    if "table_of r = on_table p"
    using p that by (rule policy_key_is_owner)
next
  assume "sql_insert (Some u) r db = Inr db1"
  then have "rls_check (Some u) INSERT r" by (auto simp: sql_insert_def split: if_splits)
  then show "owner r = u" by (simp add: rls_check_iff)
next
  assume "sql_update caller a wh now db = Inr db2"
  then show "map owner (table_rows t db2) = map owner (table_rows t db)"
    by (rule update_keeps_owner)
qed

theorem policies_keyed_on_owner_witness:
  "policy_predicate (policies ! 4) = Equals Auth_uid (Column Psychologist_id)
   \<and> eval_predicate (Some 1) (Patient_row carlos) (policy_predicate (policies ! 4)) = Some True
   \<and> owner (Record_row session_by_bia) = 2
   \<and> map owner (table_rows Profiles clinic_after_update) = [1, 2]"
proof -
  have "policies ! 4 \<in> set policies" and "on_table (policies ! 4) = Patients"
    by (simp_all add: policies_def)
  with policies_keyed_on_owner[where r = "Patient_row carlos" and caller = "Some 1"]
  have "policy_predicate (policies ! 4) = Equals Auth_uid (Column Psychologist_id)"
    and "eval_predicate (Some 1) (Patient_row carlos) (policy_predicate (policies ! 4)) = Some True"
    by (auto simp: carlos_def)
  moreover
  from policies_keyed_on_owner[where u = 2 and r = "Record_row session_by_bia" and db = clinic
      and ?db1.0 = clinic_with_session] bia_inserts_session
  have "owner (Record_row session_by_bia) = 2" by simp
  moreover
  from policies_keyed_on_owner[where caller = "Some 2" and a = sets_phone and wh = "id_is 2"
      and now = 9 and db = clinic and ?db2.0 = clinic_after_update and t = Profiles]
    bia_sets_phone
  have "map owner (table_rows Profiles clinic_after_update) = [1, 2]"
    by (simp add: clinic_def profile_of_ana_def profile_of_bia_def)
  ultimately show ?thesis by simp
qed

section \<open>Properties of signing up\<close>

lemma insert_auth_user_result:
  assumes "insert_auth_user NEW now db = Inr db'"
  shows "db' = db\<lparr>auth_users := auth_users db @ [NEW],
                  public_profiles := public_profiles db @ [new_profile NEW now]\<rparr>"
  using assms
  by (auto simp: insert_auth_user_def handle_new_user_def Let_def split: if_splits)

lemma new_profile_name:
  "(json_get_text (au_raw_user_meta_data NEW) ''full_name'' = Some s
      \<longrightarrow> pf_full_name (new_profile NEW now) = s)
   \<and> (json_get_text (au_raw_user_meta_data NEW) ''full_name'' = None
      \<longrightarrow> pf_full_name (new_profile NEW now) = ''Psic'' @ [CHR 0xF3] @ ''logo(a)'')"
  by (simp add: new_profile_def coalesce_def default_full_name_def)

lemma json_get_text_ok:
  assumes "jsonb_ok j" and "json_get_text j k = Some s"
  shows "text_ok s"
proof -
  from assms(2) obtain kvs v where j: "j = Some (JObject kvs)" and v: "map_of kvs k = Some v"
    and s: "v = JString s \<or> v = JOther s"
    by (auto simp: json_get_text_def split: option.splits jsonb.splits json_field.splits)
  from v have "(k, v) \<in> set kvs" by (rule map_of_SomeD)
  with assms(1) j have "json_field_ok v" by (auto simp: jsonb_ok_def list_all_iff)
  with s show ?thesis by auto
qed

lemma default_full_name_ok: "text_ok default_full_name"
  by (simp add: text_ok_def default_full_name_def)

lemma new_profile_text_ok:
  assumes "jsonb_ok (au_raw_user_meta_data NEW)"
  shows "row_text_ok (Profile_row (new_profile NEW now))"
proof (cases "json_get_text (au_raw_user_meta_data NEW) ''full_name''")
  case None
  then show ?thesis
    using default_full_name_ok by (simp add: new_profile_def coalesce_def text_option_ok_def)
next
  case (Some s)
  with assms have "text_ok s" by (rule json_get_text_ok)
  with Some show ?thesis by (simp add: new_profile_def coalesce_def text_option_ok_def)
qed

lemma insert_auth_user_total:
  assumes "constraints_ok db" and "au_id NEW \<notin> set (user_ids db)"
    and "jsonb_ok (au_raw_user_meta_data NEW)"
  shows "\<exists>db'. insert_auth_user NEW now db = Inr db'"
proof -
  let ?db1 = "db\<lparr>auth_users := auth_users db @ [NEW]\<rparr>"
  let ?db2 = "add_row (Profile_row (new_profile NEW now)) ?db1"
  from assms(1,2) have no_profile: "au_id NEW \<notin> set (map pf_id (public_profiles db))"
    by (auto simp: constraints_ok_def foreign_keys_ok_def list_all_iff)
  from assms(1,2) have 1: "constraints_ok ?db1"
    by (auto simp: constraints_ok_def primary_keys_ok_def foreign_keys_ok_def checks_ok_def
        user_ids_def patient_ids_def list_all_iff)
  with assms(1,2) no_profile have 2: "constraints_ok ?db2"
    by (auto simp: constraints_ok_def primary_keys_ok_def foreign_keys_ok_def checks_ok_def
        user_ids_def patient_ids_def list_all_iff new_profile_def)
  from 1 2 assms(3) new_profile_text_ok[OF assms(3), of now] show ?thesis
    by (simp add: insert_auth_user_def handle_new_user_def Let_def)
qed

lemma profile_ids_update:
  assumes "sql_update caller a wh now db = Inr db'"
  shows "map pf_id (public_profiles db') = map pf_id (public_profiles db)"
    and "auth_users db' = auth_users db"
proof -
  from update_keeps_owner[OF assms, of Profiles]
  show "map pf_id (public_profiles db') = map pf_id (public_profiles db)"
    by (simp add: comp_def)
  from assms have "db' = write_rows a (update_target caller wh) now db"
    by (auto simp: sql_update_def Let_def split: if_splits)
  then show "auth_users db' = auth_users db" by (cases a) simp_all
qed

lemma invariant_signup:
  assumes "every_user_has_profile db" and "insert_auth_user NEW now db = Inr db'"
  shows "every_user_has_profile db'"
  using assms(1) unfolding insert_auth_user_result[OF assms(2)]
  by (auto simp: every_user_has_profile_def list_all_iff new_profile_def)

lemma invariant_removal:
  assumes "every_user_has_profile db"
  shows "every_user_has_profile (delete_auth_user u db)"
proof -
  have "au_id x \<in> pf_id ` {p \<in> set (public_profiles db). pf_id p \<noteq> u}"
    if "x \<in> set (auth_users db)" and "au_id x \<noteq> u" for x
  proof -
    from assms that(1) obtain p where "p \<in> set (public_profiles db)" and "pf_id p = au_id x"
      by (auto simp: every_user_has_profile_def list_all_iff)
    with that(2) show ?thesis by force
  qed
  then show ?thesis
    by (simp add: every_user_has_profile_def delete_auth_user_def cascade_patients_def
        list_all_iff Let_def)
qed

lemma invariant_insert:
  assumes "every_user_has_profile db" and "sql_insert caller r db = Inr db'"
  shows "every_user_has_profile db'"
proof -
  from assms(2) have "db' = add_row r db" by (auto simp: sql_insert_def split: if_splits)
  with assms(1) show ?thesis
    by (cases r) (auto simp: every_user_has_profile_def list_all_iff)
qed

lemma invariant_update:
  assumes "every_user_has_profile db" and "sql_update caller a wh now db = Inr db'"
  shows "every_user_has_profile db'"
  using assms(1) profile_ids_update[OF assms(2)]
  by (simp add: every_user_has_profile_def)

lemma invariant_delete:
  assumes "every_user_has_profile db"
  shows "every_user_has_profile (sql_delete caller t wh db)"
proof -
  have "\<not> delete_target caller wh (Profile_row p)" for p
    by (simp add: delete_target_def rls_using_iff)
  with assms show ?thesis
    by (cases t) (simp_all add: every_user_has_profile_def cascade_patients_def Let_def)
qed

text \<open>
  Claim C10. When an insert into \<^verbatim>\<open>auth.users\<close> has gone through, the new user is
  there and the profiles hold a row with the user's id, whose name is the text that
  \<^verbatim>\<open>raw_user_meta_data ->> 'full_name'\<close> gives when it gives one, and the twelve
  characters \<^verbatim>\<open>Psic\<close>, U+00F3, \<^verbatim>\<open>logo(a)\<close> of line 118 when it gives NULL. The insert
  does go through for a user with a fresh id and metadata that \<^verbatim>\<open>jsonb\<close> can hold, on
  a database that meets its constraints. That every user has a profile holds of the empty
  database and is kept by every sign-up, by the removal of a user, and by every insert,
  update and delete of an API caller.
\<close>

theorem new_user_gets_profile:
  "(insert_auth_user NEW now db = Inr db' \<longrightarrow>
      NEW \<in> set (auth_users db')
      \<and> (\<exists>p \<in> set (public_profiles db'). pf_id p = au_id NEW
            \<and> (\<forall>s. json_get_text (au_raw_user_meta_data NEW) ''full_name'' = Some s
                  \<longrightarrow> pf_full_name p = s)
            \<and> (json_get_text (au_raw_user_meta_data NEW) ''full_name'' = None
                  \<longrightarrow> pf_full_name p = ''Psic'' @ [CHR 0xF3] @ ''logo(a)'')))
   \<and> (constraints_ok db \<longrightarrow> au_id NEW \<notin> set (user_ids db)
        \<longrightarrow> jsonb_ok (au_raw_user_meta_data NEW)
        \<longrightarrow> (\<exists>db'. insert_auth_user NEW now db = Inr db'))
   \<and> every_user_has_profile empty_database
   \<and> (every_user_has_profile db \<longrightarrow>
        (insert_auth_user NEW now db = Inr db' \<longrightarrow> every_user_has_profile db')
        \<and> every_user_has_profile (delete_auth_user u db)
        \<and> (sql_insert caller r db = Inr db1 \<longrightarrow> every_user_has_profile db1)
        \<and> (sql_update caller a wh now' db = Inr db2 \<longrightarrow> every_user_has_profile db2)
        \<and> every_user_has_profile (sql_delete caller t wh' db))"
proof (intro conjI impI)
  assume ok: "insert_auth_user NEW now db = Inr db'"
  show "NEW \<in> set (auth_users db')"
    unfolding insert_auth_user_result[OF ok] by simp
  have "new_profile NEW now \<in> set (public_profiles db')"
    unfolding insert_auth_user_result[OF ok] by simp
  moreover have "pf_id (new_profile NEW now) = au_id NEW" by (simp add: new_profile_def)
  ultimately show "\<exists>p \<in> set (public_profiles db'). pf_id p = au_id NEW
            \<and> (\<forall>s. json_get_text (au_raw_user_meta_data NEW) ''full_name'' = Some s
                  \<longrightarrow> pf_full_name p = s)
            \<and> (json_get_text (au_raw_user_meta_data NEW) ''full_name'' = None
                  \<longrightarrow> pf_full_name p = ''Psic'' @ [CHR 0xF3] @ ''logo(a)'')"
    using new_profile_name by blast
next
  show "\<exists>db'. insert_auth_user NEW now db = Inr db'"
    if "constraints_ok db" and "au_id NEW \<notin> set (user_ids db)"
      and "jsonb_ok (au_raw_user_meta_data NEW)"
    using that by (rule insert_auth_user_total)
  show "every_user_has_profile empty_database"
    by (simp add: every_user_has_profile_def empty_database_def)
next
  assume inv: "every_user_has_profile db"
  show "every_user_has_profile db'" if "insert_auth_user NEW now db = Inr db'"
    using inv that by (rule invariant_signup)
  show "every_user_has_profile (delete_auth_user u db)"
    using inv by (rule invariant_removal)
  show "every_user_has_profile db1" if "sql_insert caller r db = Inr db1"
    using inv that by (rule invariant_insert)
  show "every_user_has_profile db2" if "sql_update caller a wh now' db = Inr db2"
    using inv that by (rule invariant_update)
  show "every_user_has_profile (sql_delete caller t wh' db)"
    using inv by (rule invariant_delete)
qed

lemma ana_signs_up: "insert_auth_user ana 0 empty_database = Inr only_ana"
  by (simp add: insert_auth_user_def handle_new_user_def Let_def empty_database_def
      only_ana_def ana_def profile_of_ana_def new_profile_def constraints_ok_def primary_keys_ok_def
      foreign_keys_ok_def checks_ok_def user_ids_def patient_ids_def json_get_text_def
      coalesce_def jsonb_ok_def text_ok_def text_option_ok_def)

lemma bia_signs_up: "insert_auth_user bia 1 only_ana = Inr ana_and_bia"
  by (simp add: insert_auth_user_def handle_new_user_def Let_def ana_and_bia_def
      only_ana_def ana_def bia_def profile_of_ana_def profile_of_bia_def new_profile_def constraints_ok_def
      primary_keys_ok_def foreign_keys_ok_def checks_ok_def user_ids_def patient_ids_def
      json_get_text_def coalesce_def jsonb_ok_def text_ok_def text_option_ok_def
      default_full_name_def)

theorem new_user_gets_profile_witness:
  "insert_auth_user ana 0 empty_database = Inr only_ana
   \<and> insert_auth_user bia 1 only_ana = Inr ana_and_bia
   \<and> (\<exists>p \<in> set (public_profiles only_ana). pf_id p = 1 \<and> pf_full_name p = ''Ana Lima'')
   \<and> (\<exists>p \<in> set (public_profiles ana_and_bia). pf_id p = 2
         \<and> pf_full_name p = ''Psic'' @ [CHR 0xF3] @ ''logo(a)'')
   \<and> (\<exists>db'. insert_auth_user bia 1 only_ana = Inr db')
   \<and> every_user_has_profile only_ana
   \<and> every_user_has_profile ana_and_bia
   \<and> every_user_has_profile (delete_auth_user 1 ana_and_bia)"
proof -
  note a = new_user_gets_profile[where NEW = ana and now = 0 and db = empty_database
      and db' = only_ana]
  note b = new_user_gets_profile[where NEW = bia and now = 1 and db = only_ana
      and db' = ana_and_bia]
  note c = new_user_gets_profile[where db = ana_and_bia and u = 1]
  have na: "json_get_text (au_raw_user_meta_data ana) ''full_name'' = Some ''Ana Lima''"
    and nb: "json_get_text (au_raw_user_meta_data bia) ''full_name'' = None"
    by (simp_all add: json_get_text_def ana_def bia_def)
  from a ana_signs_up na have 1: "every_user_has_profile only_ana"
    and 2: "\<exists>p \<in> set (public_profiles only_ana). pf_id p = 1 \<and> pf_full_name p = ''Ana Lima''"
    by (auto simp: ana_def)
  from b bia_signs_up nb 1 have 3: "every_user_has_profile ana_and_bia"
    and 4: "\<exists>p \<in> set (public_profiles ana_and_bia). pf_id p = 2
         \<and> pf_full_name p = ''Psic'' @ [CHR 0xF3] @ ''logo(a)''"
    by (auto simp: bia_def)
  have "constraints_ok only_ana" "au_id bia \<notin> set (user_ids only_ana)"
    "jsonb_ok (au_raw_user_meta_data bia)"
    by (simp_all add: constraints_ok_def primary_keys_ok_def foreign_keys_ok_def checks_ok_def
        user_ids_def patient_ids_def only_ana_def ana_def bia_def profile_of_ana_def jsonb_ok_def)
  with b have 5: "\<exists>db'. insert_auth_user bia 1 only_ana = Inr db'" by blast
  from c 3 have "every_user_has_profile (delete_auth_user 1 ana_and_bia)" by simp
  with 1 2 3 4 5 ana_signs_up bia_signs_up show ?thesis by simp
qed

section \<open>Properties of the new-patient form\<close>

lemma api_insert_patient_result:
  assumes "api_insert_patient date_in caller x new_id now db = Inr (r, db')"
  obtains birth_date where "r = patients_row x birth_date new_id now"
    and "pi_birth_date x = None \<longrightarrow> birth_date = None"
    and "db' = db\<lparr>public_patients := public_patients db @ [r]\<rparr>"
    and "rls_check caller INSERT (Patient_row r)"
    and "constraints_ok db'"
  using assms
  by (auto simp: api_insert_patient_def sql_insert_def Let_def
      split: option.splits sum.splits if_splits)

lemma or_null_empty: "or_null [] = None"
  by (simp add: or_null_def)

lemma handleSubmit_blank:
  assumes "trim (fd_full_name fd) = []"
  shows "handleSubmit date_in (Some u) fd new_id now db
           = \<lparr>sb_toast = Some Nome_obrigatorio, sb_navigate = None, sb_insert = None,
              sb_database = db\<rparr>"
  using assms by (simp add: handleSubmit_def)

lemma handleSubmit_attempt:
  assumes "trim (fd_full_name fd) \<noteq> []"
  shows "(\<exists>birth_date.
            handleSubmit date_in (Some u) fd new_id now db
              = \<lparr>sb_toast = Some Paciente_cadastrado, sb_navigate = Some new_id,
                 sb_insert = Some (new_patient_payload u fd),
                 sb_database = db\<lparr>public_patients := public_patients db
                    @ [patients_row (new_patient_payload u fd) birth_date new_id now]\<rparr>\<rparr>
            \<and> (fd_birth_date fd = [] \<longrightarrow> birth_date = None))
         \<or> handleSubmit date_in (Some u) fd new_id now db
              = \<lparr>sb_toast = Some Erro_ao_cadastrar, sb_navigate = None,
                 sb_insert = Some (new_patient_payload u fd), sb_database = db\<rparr>"
proof (cases "api_insert_patient date_in (Some u) (new_patient_payload u fd) new_id now db")
  case (Inl e)
  with assms have "handleSubmit date_in (Some u) fd new_id now db
              = \<lparr>sb_toast = Some Erro_ao_cadastrar, sb_navigate = None,
                 sb_insert = Some (new_patient_payload u fd), sb_database = db\<rparr>"
    by (simp add: handleSubmit_def Let_def)
  then show ?thesis by (rule disjI2)
next
  case (Inr res)
  obtain p db' where res: "res = (p, db')" by (cases res)
  from Inr res have ok: "api_insert_patient date_in (Some u) (new_patient_payload u fd) new_id now db
      = Inr (p, db')" by simp
  from ok obtain bd where p: "p = patients_row (new_patient_payload u fd) bd new_id now"
    and bd: "pi_birth_date (new_patient_payload u fd) = None \<longrightarrow> bd = None"
    and db': "db' = db\<lparr>public_patients := public_patients db @ [p]\<rparr>"
    by (rule api_insert_patient_result)
  have id: "pt_id (patients_row (new_patient_payload u fd) bd new_id now) = new_id"
    by (simp add: patients_row_def)
  from bd have bd': "fd_birth_date fd = [] \<longrightarrow> bd = None"
    by (simp add: new_patient_payload_def or_null_empty)
  have "handleSubmit date_in (Some u) fd new_id now db
          = \<lparr>sb_toast = Some Paciente_cadastrado, sb_navigate = Some (pt_id p),
             sb_insert = Some (new_patient_payload u fd), sb_database = db'\<rparr>"
    using assms ok by (simp add: handleSubmit_def Let_def)
  then have "handleSubmit date_in (Some u) fd new_id now db
              = \<lparr>sb_toast = Some Paciente_cadastrado, sb_navigate = Some new_id,
                 sb_insert = Some (new_patient_payload u fd),
                 sb_database = db\<lparr>public_patients := public_patients db
                    @ [patients_row (new_patient_payload u fd) bd new_id now]\<rparr>\<rparr>"
    unfolding db' p id .
  with bd' show ?thesis by (intro disjI1 exI[of _ bd] conjI)
qed

lemma payload_fields:
  "pi_psychologist_id (new_patient_payload u fd) = u
   \<and> pi_full_name (new_patient_payload u fd) = trim (fd_full_name fd)
   \<and> empty_inputs_null fd (new_patient_payload u fd)"
  by (simp add: new_patient_payload_def empty_inputs_null_def or_null_empty)

lemma row_fields:
  assumes "fd_birth_date fd = [] \<longrightarrow> bd = None"
  shows "pt_psychologist_id (patients_row (new_patient_payload u fd) bd new_id now) = u
   \<and> pt_full_name (patients_row (new_patient_payload u fd) bd new_id now)
       = trim (fd_full_name fd)
   \<and> empty_inputs_stored_null fd (patients_row (new_patient_payload u fd) bd new_id now)"
  using assms
  by (simp add: patients_row_def new_patient_payload_def empty_inputs_stored_null_def
      or_null_empty)

text \<open>
  Claim C9, as stated: the insert is attempted exactly when the trimmed name is not
  empty, and a blank name gives an error message. With nobody signed in neither holds:
  line 38 returns before anything else, so a good name is not inserted and a blank one
  is not reported.
\<close>

theorem handleSubmit_no_user:
  "trim (fd_full_name carlos_form) \<noteq> []
   \<and> sb_insert (handleSubmit example_date_in None carlos_form 10 2 ana_and_bia) = None
   \<and> trim (fd_full_name blank_form) = []
   \<and> sb_toast (handleSubmit example_date_in None blank_form 10 2 ana_and_bia) = None"
proof -
  have "trim (fd_full_name carlos_form) = ''Carlos Souza''"
    unfolding carlos_form_def by code_simp
  moreover have "trim (fd_full_name blank_form) = []"
    unfolding blank_form_def carlos_form_def by code_simp
  ultimately show ?thesis by (simp add: handleSubmit_def)
qed

text \<open>
  Claim C9, amended. With a user signed in, the insert is attempted exactly when the
  trimmed name is not empty; a blank name gives the toast about the name and leaves the
  database as it was. The object of the insert carries the user, the trimmed name, and
  null for every optional field whose input is the empty string; when the insert
  succeeds the database gains exactly one patient, with these values, and otherwise it
  is unchanged. With nobody signed in the submission does nothing.
\<close>

theorem handleSubmit_spec:
  "(sb_insert (handleSubmit date_in (Some u) fd new_id now db) \<noteq> None
      \<longleftrightarrow> trim (fd_full_name fd) \<noteq> [])
   \<and> (trim (fd_full_name fd) = [] \<longrightarrow>
        sb_toast (handleSubmit date_in (Some u) fd new_id now db) = Some Nome_obrigatorio
        \<and> sb_database (handleSubmit date_in (Some u) fd new_id now db) = db)
   \<and> (\<forall>x. sb_insert (handleSubmit date_in (Some u) fd new_id now db) = Some x \<longrightarrow>
        pi_psychologist_id x = u \<and> pi_full_name x = trim (fd_full_name fd)
        \<and> empty_inputs_null fd x)
   \<and> (sb_toast (handleSubmit date_in (Some u) fd new_id now db) = Some Paciente_cadastrado \<longrightarrow>
        (\<exists>p. sb_database (handleSubmit date_in (Some u) fd new_id now db)
               = db\<lparr>public_patients := public_patients db @ [p]\<rparr>
           \<and> pt_psychologist_id p = u \<and> pt_full_name p = trim (fd_full_name fd)
           \<and> empty_inputs_stored_null fd p))
   \<and> (sb_toast (handleSubmit date_in (Some u) fd new_id now db) \<noteq> Some Paciente_cadastrado \<longrightarrow>
        sb_database (handleSubmit date_in (Some u) fd new_id now db) = db)
   \<and> handleSubmit date_in None fd new_id now db
       = \<lparr>sb_toast = None, sb_navigate = None, sb_insert = None, sb_database = db\<rparr>"
  (is "?attempted \<and> ?blank \<and> ?payload \<and> ?stored \<and> ?failed \<and> ?no_user")
proof -
  let ?x = "new_patient_payload u fd"
  have no_user: ?no_user by (simp add: handleSubmit_def)
  have payload: "pi_psychologist_id x = u \<and> pi_full_name x = trim (fd_full_name fd)
        \<and> empty_inputs_null fd x" if "Some ?x = Some x" for x
  proof -
    from that have "x = ?x" by simp
    then show ?thesis by (simp only: payload_fields)
  qed
  have "?attempted \<and> ?blank \<and> ?payload \<and> ?stored \<and> ?failed"
  proof (cases "trim (fd_full_name fd) = []")
    case True
    note h = handleSubmit_blank[OF True, of date_in u new_id now db]
    have ?attempted unfolding h using True by simp
    moreover have ?blank unfolding h by simp
    moreover have ?payload unfolding h by simp
    moreover have ?stored unfolding h by simp
    moreover have ?failed unfolding h by simp
    ultimately show ?thesis by (intro conjI)
  next
    case False
    from handleSubmit_attempt[OF False, of date_in u new_id now db]
    show ?thesis
    proof (elim disjE exE conjE)
      fix bd
      assume h: "handleSubmit date_in (Some u) fd new_id now db
              = \<lparr>sb_toast = Some Paciente_cadastrado, sb_navigate = Some new_id,
                 sb_insert = Some ?x,
                 sb_database = db\<lparr>public_patients := public_patients db
                    @ [patients_row ?x bd new_id now]\<rparr>\<rparr>"
        and bd: "fd_birth_date fd = [] \<longrightarrow> bd = None"
      have ?attempted unfolding h using False by simp
      moreover have ?blank using False by simp
      moreover have ?payload unfolding h using payload by simp
      moreover have ?stored
      proof
        have "sb_database (handleSubmit date_in (Some u) fd new_id now db)
               = db\<lparr>public_patients := public_patients db @ [patients_row ?x bd new_id now]\<rparr>"
          unfolding h by simp
        with row_fields[OF bd, of u new_id now]
        show "\<exists>p. sb_database (handleSubmit date_in (Some u) fd new_id now db)
               = db\<lparr>public_patients := public_patients db @ [p]\<rparr>
           \<and> pt_psychologist_id p = u \<and> pt_full_name p = trim (fd_full_name fd)
           \<and> empty_inputs_stored_null fd p"
          by (intro exI[of _ "patients_row ?x bd new_id now"] conjI) simp_all
      qed
      moreover have ?failed unfolding h by simp
      ultimately show ?thesis by (intro conjI)
    next
      assume h: "handleSubmit date_in (Some u) fd new_id now db
              = \<lparr>sb_toast = Some Erro_ao_cadastrar, sb_navigate = None,
                 sb_insert = Some ?x, sb_database = db\<rparr>"
      have ?attempted unfolding h using False by simp
      moreover have ?blank using False by simp
      moreover have ?payload unfolding h using payload by simp
      moreover have ?stored unfolding h by simp
      moreover have ?failed unfolding h by simp
      ultimately show ?thesis by (intro conjI)
    qed
  qed
  with no_user show ?thesis by (intro conjI) simp_all
qed

lemma trim_carlos: "trim (fd_full_name carlos_form) = ''Carlos Souza''"
  unfolding carlos_form_def by code_simp

lemma trim_blank: "trim (fd_full_name blank_form) = []"
  unfolding blank_form_def carlos_form_def by code_simp

lemma carlos_row:
  "patients_row (new_patient_payload 1 carlos_form) None 10 2 = carlos"
  by (simp add: patients_row_def new_patient_payload_def trim_carlos)
     (simp add: carlos_def or_null_def carlos_form_def)

lemma clinic_is:
  "ana_and_bia\<lparr>public_patients := public_patients ana_and_bia @ [carlos]\<rparr> = clinic"
  by (simp add: ana_and_bia_def clinic_def)

lemma ana_inserts_carlos:
  "api_insert_patient example_date_in (Some 1) (new_patient_payload 1 carlos_form) 10 2 ana_and_bia
     = Inr (carlos, clinic)"
proof -
  have "pi_birth_date (new_patient_payload 1 carlos_form) = None"
    by (simp add: new_patient_payload_def carlos_form_def or_null_def)
  moreover have "rls_check (Some 1) INSERT (Patient_row carlos)"
    and "rls_using (Some 1) SELECT (Patient_row carlos)"
    by (simp_all add: rls_check_iff rls_using_iff carlos_def)
  moreover have "row_text_ok (Patient_row carlos)"
    by (simp add: carlos_def text_ok_def text_option_ok_def)
  ultimately show ?thesis
    using clinic_ok
    by (simp add: api_insert_patient_def sql_insert_def carlos_row clinic_is
        del: One_nat_def row_text_ok.simps)
qed

lemma ana_submits_carlos:
  "handleSubmit example_date_in (Some 1) carlos_form 10 2 ana_and_bia
     = \<lparr>sb_toast = Some Paciente_cadastrado, sb_navigate = Some 10,
        sb_insert = Some (new_patient_payload 1 carlos_form), sb_database = clinic\<rparr>"
proof -
  have "pt_id carlos = 10" by (simp add: carlos_def)
  then show ?thesis
    by (simp add: handleSubmit_def trim_carlos ana_inserts_carlos del: One_nat_def)
qed

theorem handleSubmit_spec_witness:
  "trim (fd_full_name carlos_form) = ''Carlos Souza''
   \<and> handleSubmit example_date_in (Some 1) carlos_form 10 2 ana_and_bia
       = \<lparr>sb_toast = Some Paciente_cadastrado, sb_navigate = Some 10,
          sb_insert = Some (new_patient_payload 1 carlos_form), sb_database = clinic\<rparr>
   \<and> pi_full_name (new_patient_payload 1 carlos_form) = ''Carlos Souza''
   \<and> fd_phone carlos_form = [] \<and> pi_phone (new_patient_payload 1 carlos_form) = None
   \<and> trim (fd_full_name blank_form) = []
   \<and> sb_toast (handleSubmit example_date_in (Some 1) blank_form 10 2 ana_and_bia)
       = Some Nome_obrigatorio
   \<and> sb_database (handleSubmit example_date_in (Some 1) blank_form 10 2 ana_and_bia)
       = ana_and_bia"
proof -
  note a = handleSubmit_spec[of example_date_in 1 carlos_form 10 2 ana_and_bia]
  note b = handleSubmit_spec[of example_date_in 1 blank_form 10 2 ana_and_bia]
  have phone: "fd_phone carlos_form = []" by (simp add: carlos_form_def)
  from a have "pi_full_name (new_patient_payload 1 carlos_form) = ''Carlos Souza''
      \<and> empty_inputs_null carlos_form (new_patient_payload 1 carlos_form)"
    unfolding ana_submits_carlos trim_carlos by simp
  with phone have "pi_full_name (new_patient_payload 1 carlos_form) = ''Carlos Souza''"
    and "pi_phone (new_patient_payload 1 carlos_form) = None"
    by (simp_all add: empty_inputs_null_def)
  moreover from b trim_blank
  have "sb_toast (handleSubmit example_date_in (Some 1) blank_form 10 2 ana_and_bia)
       = Some Nome_obrigatorio"
    and "sb_database (handleSubmit example_date_in (Some 1) blank_form 10 2 ana_and_bia)
       = ana_and_bia"
    by simp_all
  ultimately show ?thesis
    using trim_carlos trim_blank ana_submits_carlos phone by simp
qed

section \<open>Properties of the queries\<close>

lemma page_queries_tables:
  "q \<in> set page_queries \<Longrightarrow> q_from q = Patients \<or> q_from q = Patient_records"
  by (auto simp: page_queries_def read_queries_def dashboard_recent_patients_def
      dashboard_totalPatients_def dashboard_activePatients_def dashboard_totalRecords_def
      patients_list_def detail_patient_def detail_records_def detail_create_record_def
      new_patient_insert_def select_all_def insert_into_def)

text \<open>
  Claim C7. Every query that a page component issues is on the patients or on the
  patient records; none is on the profiles, whatever the command.
\<close>

theorem pages_query_two_tables:
  "(\<forall>q \<in> set page_queries. q_from q = Patients \<or> q_from q = Patient_records)
   \<and> (\<forall>c. \<not> issues Profiles c)"
proof -
  have "\<not> issues Profiles c" for c
  proof
    assume "issues Profiles c"
    then obtain q where "q \<in> set page_queries" and "q_from q = Profiles"
      by (auto simp: issues_def list_ex_iff)
    with page_queries_tables[of q] show False by simp
  qed
  with page_queries_tables show ?thesis by blast
qed

theorem pages_query_two_tables_witness:
  "detail_records \<in> set page_queries \<and> q_from detail_records = Patient_records
   \<and> \<not> issues Profiles SELECT"
proof -
  have "detail_records \<in> set page_queries"
    by (simp add: page_queries_def read_queries_def)
  moreover have "q_from detail_records = Patient_records"
    by (simp add: detail_records_def select_all_def)
  ultimately show ?thesis using pages_query_two_tables by simp
qed

lemma set_insert_sorted: "set (insert_sorted le x ys) = insert x (set ys)"
  by (induction ys) auto

lemma set_sort_with: "set (sort_with le xs) = set xs"
  by (induction xs) (simp_all add: sort_with_def set_insert_sorted)

lemma set_order_by: "set (order_by c ascending rows) = set rows"
  by (simp add: order_by_def set_sort_with)

lemma set_ordered: "set (ordered q rows) = set rows"
  by (cases "q_order q") (auto simp: ordered_def set_order_by)

lemma set_limited: "set (limited q rows) \<subseteq> set rows"
  by (cases "q_limit q") (auto simp: limited_def dest: in_set_takeD)

lemma set_maybeSingle: "set (response_rows (maybeSingle rows)) \<subseteq> set rows"
proof (cases rows)
  case Nil
  then show ?thesis by (simp add: maybeSingle_def)
next
  case (Cons r rest)
  then show ?thesis by (cases rest) (simp_all add: maybeSingle_def)
qed

lemma response_rows_subset:
  "set (response_rows (run_select backend user rid q)) \<subseteq> set (matching backend user rid q)"
proof -
  let ?rows = "limited q (ordered q (matching backend user rid q))"
  have rows: "set ?rows \<subseteq> set (matching backend user rid q)"
    using set_limited[of q "ordered q (matching backend user rid q)"] by (simp add: set_ordered)
  consider "q_count_head q" | "\<not> q_count_head q" "q_maybeSingle q"
    | "\<not> q_count_head q" "\<not> q_maybeSingle q" by blast
  then show ?thesis
  proof cases
    case 1
    then show ?thesis by (simp add: run_select_def Let_def)
  next
    case 2
    then have "run_select backend user rid q = maybeSingle ?rows"
      by (simp add: run_select_def Let_def)
    with set_maybeSingle[of ?rows] rows show ?thesis by auto
  next
    case 3
    then have "run_select backend user rid q = Rows ?rows"
      by (simp add: run_select_def Let_def)
    with rows show ?thesis by simp
  qed
qed

lemma response_rows_all:
  assumes "\<not> q_count_head q" and "\<not> q_maybeSingle q" and "q_limit q = None"
  shows "set (response_rows (run_select backend user rid q)) = set (matching backend user rid q)"
  using assms by (simp add: run_select_def Let_def limited_def set_ordered)

lemma fetchPatients_set: "set (fetchPatients backend user) = set (backend Patients)"
proof -
  have "set (fetchPatients backend user) = set (matching backend user None patients_list)"
    unfolding fetchPatients_def
    by (rule response_rows_all) (simp_all add: patients_list_def select_all_def)
  then show ?thesis
    by (simp add: matching_def patients_list_def select_all_def matches_eq_def)
qed

lemma matches_route_patient:
  "matches_eq user (Some i) [(Patient_id, Route_id)] r \<longleftrightarrow> col Patient_id r = Uuid i"
proof -
  have "sql_eq x (Uuid i) \<longleftrightarrow> x = Uuid i" for x
    by (auto simp: sql_eq_def)
  then show ?thesis by (simp add: matches_eq_def uuid_or_null_def)
qed

lemma detail_records_set:
  "set (response_rows (run_select backend user (Some i) detail_records))
     = {r \<in> set (backend Patient_records). col Patient_id r = Uuid i}"
proof -
  have "set (response_rows (run_select backend user (Some i) detail_records))
          = set (matching backend user (Some i) detail_records)"
    by (rule response_rows_all) (simp_all add: detail_records_def select_all_def)
  moreover have "q_eq detail_records = [(Patient_id, Route_id)]"
    and "q_from detail_records = Patient_records"
    by (simp_all add: detail_records_def select_all_def)
  ultimately show ?thesis
    by (simp add: matching_def matches_route_patient)
qed

lemma read_queries_tables:
  "q \<in> set read_queries \<Longrightarrow> q_from q = Patients \<or> q_from q = Patient_records"
  using page_queries_tables by (simp add: page_queries_def)

lemma read_queries_filters:
  "q \<in> set read_queries \<Longrightarrow>
     q_command q = SELECT
     \<and> (\<forall>(c, v) \<in> set (q_eq q). c \<notin> set (references_auth_users (q_from q)) \<and> v \<noteq> User_id)"
  by (auto simp: read_queries_def dashboard_recent_patients_def
      dashboard_totalPatients_def dashboard_activePatients_def dashboard_totalRecords_def
      patients_list_def detail_patient_def detail_records_def select_all_def)

lemma table_rows_table: "r \<in> set (table_rows t db) \<Longrightarrow> table_of r = t"
  by (cases t) auto

lemma rls_backend_is: "rls_backend caller db = backend_with (rls_using caller SELECT) db"
  by (rule ext) (simp add: rls_backend_def backend_with_def sql_select_def)

lemma restricted_iff:
  "(\<forall>db rid. \<forall>q \<in> set read_queries.
       \<forall>r \<in> set (response_rows (run_select (backend_with visible db) user rid q)). owner r = u)
   \<longleftrightarrow> (\<forall>r. table_of r \<noteq> Profiles \<longrightarrow> visible r \<longrightarrow> owner r = u)"
proof
  assume R: "\<forall>r. table_of r \<noteq> Profiles \<longrightarrow> visible r \<longrightarrow> owner r = u"
  show "\<forall>db rid. \<forall>q \<in> set read_queries.
       \<forall>r \<in> set (response_rows (run_select (backend_with visible db) user rid q)). owner r = u"
  proof (intro allI ballI)
    fix db rid q r
    assume q: "q \<in> set read_queries"
      and "r \<in> set (response_rows (run_select (backend_with visible db) user rid q))"
    with response_rows_subset[of "backend_with visible db" user rid q]
    have "r \<in> set (matching (backend_with visible db) user rid q)"
      by (rule_tac subsetD)
    then have "r \<in> set (table_rows (q_from q) db)" and v: "visible r"
      by (simp_all add: matching_def backend_with_def)
    then have "table_of r = q_from q" by (simp add: table_rows_table)
    with read_queries_tables[OF q] have "table_of r \<noteq> Profiles" by auto
    with R v show "owner r = u" by simp
  qed
next
  assume A: "\<forall>db rid. \<forall>q \<in> set read_queries.
       \<forall>r \<in> set (response_rows (run_select (backend_with visible db) user rid q)). owner r = u"
  show "\<forall>r. table_of r \<noteq> Profiles \<longrightarrow> visible r \<longrightarrow> owner r = u"
  proof (intro allI impI)
    fix r assume t: "table_of r \<noteq> Profiles" and v: "visible r"
    let ?db = "add_row r empty_database"
    show "owner r = u"
    proof (cases r)
      case (Profile_row p)
      with t show ?thesis by simp
    next
      case (Patient_row p)
      have "r \<in> set (fetchPatients (backend_with visible ?db) user)"
        using v Patient_row
        by (simp add: fetchPatients_set backend_with_def empty_database_def)
      then have in_rows: "r \<in> set (response_rows
          (run_select (backend_with visible ?db) user None patients_list))"
        by (simp add: fetchPatients_def)
      have "patients_list \<in> set read_queries" by (simp add: read_queries_def)
      from A[rule_format, OF this in_rows] show ?thesis .
    next
      case (Record_row x)
      have in_rows: "r \<in> set (response_rows
          (run_select (backend_with visible ?db) user (Some (pr_patient_id x)) detail_records))"
        using v Record_row
        by (simp add: detail_records_set backend_with_def empty_database_def)
      have "detail_records \<in> set read_queries" by (simp add: read_queries_def)
      from A[rule_format, OF this in_rows] show ?thesis .
    qed
  qed
qed

lemma rls_reads_own:
  assumes "q \<in> set read_queries"
    and "r \<in> set (response_rows (run_select (rls_backend (Some u) db) user rid q))"
  shows "owner r = u"
proof -
  have "\<forall>r. table_of r \<noteq> Profiles \<longrightarrow> rls_using (Some u) SELECT r \<longrightarrow> owner r = u"
    by (simp add: rls_using_iff)
  with restricted_iff[of "rls_using (Some u) SELECT" user u]
  have "\<forall>db rid. \<forall>q \<in> set read_queries.
       \<forall>r \<in> set (response_rows
          (run_select (backend_with (rls_using (Some u) SELECT) db) user rid q)). owner r = u"
    by (rule_tac iffD2)
  from this[rule_format, OF assms(1)] assms(2) show ?thesis
    by (simp add: rls_backend_is)
qed

text \<open>
  Claim C4. No read of the pages filters on the column that names the owner, nor on the
  signed-in user: the filters are on \<^verbatim>\<open>status\<close>, \<^verbatim>\<open>id\<close> and
  \<^verbatim>\<open>patient_id\<close>, against a literal or the route. A page shows rows that the backend
  returned for the table, the Patients page all of them. So, for any rule by which a
  backend decides what a caller sees, all that the reads return in every database
  belongs to \<open>u\<close> if and only if the rule admits only rows of \<open>u\<close> in the patients
  and the patient records; under the policies of the migration it does.
\<close>

theorem reads_rely_on_backend:
  "(\<forall>q \<in> set read_queries.
      q_command q = SELECT
      \<and> (\<forall>(c, v) \<in> set (q_eq q). c \<notin> set (references_auth_users (q_from q)) \<and> v \<noteq> User_id)
      \<and> set (response_rows (run_select backend user rid q)) \<subseteq> set (backend (q_from q)))
   \<and> set (fetchPatients backend user) = set (backend Patients)
   \<and> ((\<forall>db rid. \<forall>q \<in> set read_queries.
          \<forall>r \<in> set (response_rows (run_select (backend_with visible db) user rid q)).
            owner r = u)
        \<longleftrightarrow> (\<forall>r. table_of r \<noteq> Profiles \<longrightarrow> visible r \<longrightarrow> owner r = u))
   \<and> (\<forall>q \<in> set read_queries.
         \<forall>r \<in> set (response_rows (run_select (rls_backend (Some u) db) user rid q)).
           owner r = u)"
  (is "?filters \<and> ?list \<and> ?iff \<and> ?rls")
proof -
  have ?filters
  proof
    fix q assume q: "q \<in> set read_queries"
    have "set (matching backend user rid q) \<subseteq> set (backend (q_from q))"
      by (simp add: matching_def)
    with response_rows_subset[of backend user rid q]
    have "set (response_rows (run_select backend user rid q)) \<subseteq> set (backend (q_from q))"
      by (rule subset_trans)
    with read_queries_filters[OF q]
    show "q_command q = SELECT
      \<and> (\<forall>(c, v) \<in> set (q_eq q). c \<notin> set (references_auth_users (q_from q)) \<and> v \<noteq> User_id)
      \<and> set (response_rows (run_select backend user rid q)) \<subseteq> set (backend (q_from q))"
      by (intro conjI) simp_all
  qed
  moreover have ?list by (rule fetchPatients_set)
  moreover have ?iff by (rule restricted_iff)
  moreover have ?rls using rls_reads_own by blast
  ultimately show ?thesis by (intro conjI)
qed

lemma ana_lists_patients:
  "set (rls_backend (Some 1) clinic Patients) = {Patient_row carlos}"
  by (simp add: rls_backend_def sql_select_own own_rows_def clinic_def carlos_def)

lemma unrestricted_lists_all:
  "set (backend_with unrestricted clinic Patients) = {Patient_row carlos}"
  by (simp add: backend_with_def unrestricted_def clinic_def)

theorem reads_rely_on_backend_witness:
  "patients_list \<in> set read_queries
   \<and> set (fetchPatients (rls_backend (Some 1) clinic) (Some 1)) = {Patient_row carlos}
   \<and> owner (Patient_row carlos) = 1
   \<and> set (fetchPatients (backend_with unrestricted clinic) (Some 2)) = {Patient_row carlos}
   \<and> (\<exists>db rid q r. q \<in> set read_queries
         \<and> r \<in> set (response_rows (run_select (backend_with unrestricted db) (Some 2) rid q))
         \<and> owner r \<noteq> 2)"
proof -
  have q: "patients_list \<in> set read_queries" by (simp add: read_queries_def)
  note a = reads_rely_on_backend[where backend = "rls_backend (Some 1) clinic"
      and user = "Some 1" and u = 1 and db = clinic and rid = None]
  note b = reads_rely_on_backend[where visible = unrestricted and user = "Some 2" and u = 2
      and backend = "backend_with unrestricted clinic"]
  have c: "unrestricted (Patient_row carlos)" "owner (Patient_row carlos) \<noteq> 2"
    "table_of (Patient_row carlos) \<noteq> Profiles" "owner (Patient_row carlos) = 1"
    by (simp_all add: unrestricted_def carlos_def)
  then have "\<not> (\<forall>r. table_of r \<noteq> Profiles \<longrightarrow> unrestricted r \<longrightarrow> owner r = 2)"
    by blast
  with b have "\<not> (\<forall>db rid. \<forall>q \<in> set read_queries.
          \<forall>r \<in> set (response_rows (run_select (backend_with unrestricted db) (Some 2) rid q)).
            owner r = 2)"
    by simp
  then have "\<exists>db rid q r. q \<in> set read_queries
         \<and> r \<in> set (response_rows (run_select (backend_with unrestricted db) (Some 2) rid q))
         \<and> owner r \<noteq> 2"
    by blast
  moreover from a
  have "set (fetchPatients (rls_backend (Some 1) clinic) (Some 1)) = {Patient_row carlos}"
    by (simp add: ana_lists_patients del: One_nat_def)
  moreover from b
  have "set (fetchPatients (backend_with unrestricted clinic) (Some 2)) = {Patient_row carlos}"
    by (simp add: unrestricted_lists_all)
  ultimately show ?thesis using q c by (intro conjI)
qed

section \<open>Creating and reading patients and session records\<close>

lemma issues_patients: "issues Patients c \<longleftrightarrow> c = SELECT \<or> c = INSERT"
  by (cases c)
     (simp_all add: issues_def page_queries_def read_queries_def dashboard_recent_patients_def
      dashboard_totalPatients_def dashboard_activePatients_def dashboard_totalRecords_def
      patients_list_def detail_patient_def detail_records_def detail_create_record_def
      new_patient_insert_def select_all_def insert_into_def)


lemma constraints_add_patient:
  assumes "constraints_ok db" and "pt_id p \<notin> set (patient_ids db)"
    and "pt_psychologist_id p \<in> set (user_ids db)" and "status_check (pt_status p)"
  shows "constraints_ok (db\<lparr>public_patients := public_patients db @ [p]\<rparr>)"
  using assms
  by (auto simp: constraints_ok_def primary_keys_ok_def foreign_keys_ok_def checks_ok_def
      user_ids_def patient_ids_def list_all_iff)


lemma read_birth_date:
  assumes "fd_birth_date fd = [] \<or> date_in (fd_birth_date fd) \<noteq> None"
  obtains bd where
    "(case pi_birth_date (new_patient_payload u fd) of
        None \<Rightarrow> Some None
      | Some s \<Rightarrow> (case date_in s of None \<Rightarrow> None | Some d \<Rightarrow> Some (Some d))) = Some bd"
proof (cases "fd_birth_date fd = []")
  case True
  then have "pi_birth_date (new_patient_payload u fd) = None"
    by (simp add: new_patient_payload_def or_null_def)
  then show ?thesis using that by simp
next
  case False
  with assms obtain d where "date_in (fd_birth_date fd) = Some d" by auto
  moreover from False have "pi_birth_date (new_patient_payload u fd) = Some (fd_birth_date fd)"
    by (simp add: new_patient_payload_def or_null_def)
  ultimately show ?thesis using that by simp
qed

lemma trim_text_ok: "text_ok s \<Longrightarrow> text_ok (trim s)"
proof -
  have "set (trim s) \<subseteq> set s"
    by (auto simp: trim_def dest!: set_dropWhileD)
  then show "text_ok s \<Longrightarrow> text_ok (trim s)" by (auto simp: text_ok_def)
qed

lemma or_null_text_ok: "text_ok s \<Longrightarrow> text_option_ok (or_null s)"
  by (simp add: or_null_def text_option_ok_def)

lemma form_row_text_ok:
  assumes "form_text_ok fd"
  shows "row_text_ok (Patient_row (patients_row (new_patient_payload u fd) bd new_id now))"
  using assms
  by (simp add: form_text_ok_def patients_row_def new_patient_payload_def trim_text_ok
      or_null_text_ok) (simp add: text_option_ok_def)


lemma handleSubmit_succeeds:
  assumes name: "trim (fd_full_name fd) \<noteq> []"
    and user: "u \<in> set (user_ids db)"
    and fresh: "new_id \<notin> set (patient_ids db)"
    and ok: "constraints_ok db"
    and status: "status_check (Some (fd_status fd))"
    and birth: "fd_birth_date fd = [] \<or> date_in (fd_birth_date fd) \<noteq> None"
    and clean: "form_text_ok fd"
  shows "\<exists>p. handleSubmit date_in (Some u) fd new_id now db
               = \<lparr>sb_toast = Some Paciente_cadastrado, sb_navigate = Some new_id,
                  sb_insert = Some (new_patient_payload u fd),
                  sb_database = db\<lparr>public_patients := public_patients db @ [p]\<rparr>\<rparr>
             \<and> pt_id p = new_id \<and> pt_psychologist_id p = u
             \<and> pt_full_name p = trim (fd_full_name fd)"
proof -
  let ?x = "new_patient_payload u fd"
  from birth obtain bd where bd:
    "(case pi_birth_date ?x of
        None \<Rightarrow> Some None
      | Some s \<Rightarrow> (case date_in s of None \<Rightarrow> None | Some d \<Rightarrow> Some (Some d))) = Some bd"
    by (rule read_birth_date)
  let ?p = "patients_row ?x bd new_id now"
  have p: "pt_id ?p = new_id" "pt_psychologist_id ?p = u"
    "pt_full_name ?p = trim (fd_full_name fd)" "pt_status ?p = Some (fd_status fd)"
    by (simp_all add: patients_row_def new_patient_payload_def)
  have "constraints_ok (db\<lparr>public_patients := public_patients db @ [?p]\<rparr>)"
    using ok fresh user status by (intro constraints_add_patient) (simp_all add: p)
  moreover have "rls_check (Some u) INSERT (Patient_row ?p)"
    and "rls_using (Some u) SELECT (Patient_row ?p)"
    by (simp_all add: rls_check_iff rls_using_iff p)
  moreover have "row_text_ok (Patient_row ?p)"
    using clean by (rule form_row_text_ok)
  ultimately have "api_insert_patient date_in (Some u) ?x new_id now db
      = Inr (?p, db\<lparr>public_patients := public_patients db @ [?p]\<rparr>)"
    by (simp add: api_insert_patient_def bd sql_insert_def Let_def del: row_text_ok.simps)
  with name have "handleSubmit date_in (Some u) fd new_id now db
               = \<lparr>sb_toast = Some Paciente_cadastrado, sb_navigate = Some (pt_id ?p),
                  sb_insert = Some ?x,
                  sb_database = db\<lparr>public_patients := public_patients db @ [?p]\<rparr>\<rparr>"
    by (simp add: handleSubmit_def Let_def)
  with p show ?thesis by (intro exI[of _ ?p] conjI) simp_all
qed

lemma unique_filter:
  assumes "distinct (map f xs)" and "x \<in> set xs" and "P x"
  shows "filter (\<lambda>y. P y \<and> f y = f x) xs = [x]"
  using assms
proof (induction xs)
  case Nil
  then show ?case by simp
next
  case (Cons a xs)
  show ?case
  proof (cases "a = x")
    case True
    with Cons.prems have "f x \<notin> f ` set xs" by simp
    then have "\<forall>y \<in> set xs. f y \<noteq> f x" by (metis imageI)
    then have "filter (\<lambda>y. P y \<and> f y = f x) xs = []" by (simp add: filter_empty_conv)
    with True Cons.prems show ?thesis by simp
  next
    case False
    with Cons.prems have "x \<in> set xs" and "f a \<noteq> f x" and "distinct (map f xs)" by auto
    with Cons.IH Cons.prems show ?thesis by simp
  qed
qed

lemma matches_route_id:
  "matches_eq user (Some i) [(Id, Route_id)] r \<longleftrightarrow> col Id r = Uuid i"
proof -
  have "sql_eq x (Uuid i) \<longleftrightarrow> x = Uuid i" for x
    by (auto simp: sql_eq_def)
  then show ?thesis by (simp add: matches_eq_def uuid_or_null_def)
qed

lemma patient_response:
  assumes "constraints_ok db" and "p \<in> set (public_patients db)" and "pt_psychologist_id p = u"
  shows "run_select (rls_backend (Some u) db) user (Some (pt_id p)) detail_patient
           = Single (Some (Patient_row p))"
proof -
  from assms(1) have d: "distinct (map pt_id (public_patients db))"
    by (simp add: constraints_ok_def primary_keys_ok_def patient_ids_def)
  have "matching (rls_backend (Some u) db) user (Some (pt_id p)) detail_patient
          = map Patient_row
              (filter (\<lambda>y. pt_psychologist_id y = u \<and> pt_id y = pt_id p) (public_patients db))"
    by (simp add: matching_def detail_patient_def select_all_def rls_backend_def sql_select_own
        own_rows_def filter_map comp_def matches_route_id conj_commute)
  also from d assms(2,3) have "\<dots> = [Patient_row p]"
    by (simp add: unique_filter[where f = pt_id and P = "\<lambda>y. pt_psychologist_id y = u"])
  finally show ?thesis
    by (simp add: run_select_def Let_def detail_patient_def select_all_def
        ordered_def limited_def maybeSingle_def)
qed


lemma records_response:
  obtains rs where "run_select backend user (Some i) detail_records = Rows rs"
  by (simp add: run_select_def Let_def detail_records_def select_all_def)

lemma read_records:
  "set (response_rows (run_select (rls_backend (Some u) db) user (Some i) detail_records))
     = {Record_row r | r. r \<in> set (public_patient_records db)
          \<and> pr_psychologist_id r = u \<and> pr_patient_id r = i}"
  by (auto simp: detail_records_set rls_backend_def sql_select_own own_rows_def)

lemma view_patient:
  assumes "constraints_ok db" and "p \<in> set (public_patients db)" and "pt_psychologist_id p = u"
  shows "\<exists>rs. fetchPatientData (rls_backend (Some u) db) user (pt_id p)
                = Loaded (Patient_row p) rs
              \<and> set rs = {Record_row r | r. r \<in> set (public_patient_records db)
                            \<and> pr_psychologist_id r = u \<and> pr_patient_id r = pt_id p}"
proof -
  obtain rs where rs: "run_select (rls_backend (Some u) db) user (Some (pt_id p)) detail_records
      = Rows rs"
    by (rule records_response)
  with read_records[of u db user "pt_id p"]
  have "set rs = {Record_row r | r. r \<in> set (public_patient_records db)
                            \<and> pr_psychologist_id r = u \<and> pr_patient_id r = pt_id p}"
    by simp
  moreover have "fetchPatientData (rls_backend (Some u) db) user (pt_id p)
      = Loaded (Patient_row p) rs"
    by (simp add: fetchPatientData_def patient_response[OF assms] rs)
  ultimately show ?thesis by (intro exI[of _ rs] conjI)
qed


lemma list_patients:
  "set (fetchPatients (rls_backend (Some u) db) user) = set (own_rows u Patients db)"
  by (simp add: fetchPatients_set rls_backend_def sql_select_own)

text \<open>
  Claim C5, as stated: the application offers all four operations on patients. No page
  component issues an update or a delete on the patients.
\<close>

theorem pages_never_update_or_delete_patients:
  "\<not> issues Patients UPDATE \<and> \<not> issues Patients DELETE"
  by (simp add: issues_patients)

text \<open>
  Claim C5, amended. The pages issue selects and inserts on the patients and nothing
  else. A signed-in psychologist creates a patient: with a name that is not blank, a
  fresh id, an accepted status, a birth date that is empty or readable and no U+0000 in
  the text of the form, on a database that meets its constraints, the submission
  succeeds and adds exactly the new patient, owned by the psychologist. The Patients
  page lists exactly the psychologist's own patients, and the detail page loads an own
  patient by its id. Updating and deleting an own patient is permitted by the policies,
  but no page does it.
\<close>

theorem patients_create_and_read:
  "(issues Patients c \<longleftrightarrow> c = SELECT \<or> c = INSERT)
   \<and> (trim (fd_full_name fd) \<noteq> [] \<longrightarrow> u \<in> set (user_ids db)
        \<longrightarrow> new_id \<notin> set (patient_ids db) \<longrightarrow> constraints_ok db
        \<longrightarrow> status_check (Some (fd_status fd))
        \<longrightarrow> (fd_birth_date fd = [] \<or> date_in (fd_birth_date fd) \<noteq> None)
        \<longrightarrow> form_text_ok fd
        \<longrightarrow> (\<exists>p. handleSubmit date_in (Some u) fd new_id now db
                   = \<lparr>sb_toast = Some Paciente_cadastrado, sb_navigate = Some new_id,
                      sb_insert = Some (new_patient_payload u fd),
                      sb_database = db\<lparr>public_patients := public_patients db @ [p]\<rparr>\<rparr>
                 \<and> pt_id p = new_id \<and> pt_psychologist_id p = u
                 \<and> pt_full_name p = trim (fd_full_name fd)))
   \<and> set (fetchPatients (rls_backend (Some u) db) (Some u)) = set (own_rows u Patients db)
   \<and> (constraints_ok db \<longrightarrow> p \<in> set (public_patients db) \<longrightarrow> pt_psychologist_id p = u
        \<longrightarrow> (\<exists>rs. fetchPatientData (rls_backend (Some u) db) (Some u) (pt_id p)
                    = Loaded (Patient_row p) rs))
   \<and> (pt_psychologist_id p = u
        \<longrightarrow> permitted (Some u) UPDATE (Patient_row p) \<and> permitted (Some u) DELETE (Patient_row p))"
  (is "?issued \<and> ?create \<and> ?list \<and> ?view \<and> ?policies")
proof -
  have ?issued by (rule issues_patients)
  moreover have ?create using handleSubmit_succeeds by blast
  moreover have ?list by (rule list_patients)
  moreover have ?view
  proof (intro impI)
    assume "constraints_ok db" and "p \<in> set (public_patients db)" and "pt_psychologist_id p = u"
    then have "\<exists>rs. fetchPatientData (rls_backend (Some u) db) (Some u) (pt_id p)
                    = Loaded (Patient_row p) rs
                  \<and> set rs = {Record_row r | r. r \<in> set (public_patient_records db)
                                \<and> pr_psychologist_id r = u \<and> pr_patient_id r = pt_id p}"
      by (rule view_patient)
    then show "\<exists>rs. fetchPatientData (rls_backend (Some u) db) (Some u) (pt_id p)
                    = Loaded (Patient_row p) rs"
      by (elim exE conjE) (rule exI)
  qed
  moreover have ?policies by (simp add: permitted_iff)
  ultimately show ?thesis by (intro conjI)
qed

lemma ana_views_carlos:
  "carlos \<in> set (public_patients clinic)" "pt_psychologist_id carlos = 1" "pt_id carlos = 10"
  "own_rows 1 Patients clinic = [Patient_row carlos]"
  by (simp_all add: clinic_def carlos_def own_rows_def)

lemma ana_and_bia_ok: "constraints_ok ana_and_bia"
  by (simp add: constraints_ok_def primary_keys_ok_def foreign_keys_ok_def checks_ok_def
      ana_and_bia_def user_ids_def patient_ids_def ana_def bia_def
      profile_of_ana_def profile_of_bia_def)

lemma ana_may_submit:
  "1 \<in> set (user_ids ana_and_bia)" "10 \<notin> set (patient_ids ana_and_bia)"
  "status_check (Some (fd_status carlos_form))" "fd_birth_date carlos_form = []"
  "form_text_ok carlos_form"
  by (simp_all add: user_ids_def patient_ids_def ana_and_bia_def ana_def bia_def
      status_check_def carlos_form_def form_text_ok_def text_ok_def)

theorem patients_create_and_read_witness:
  "issues Patients INSERT \<and> issues Patients SELECT
   \<and> (\<exists>p. handleSubmit example_date_in (Some 1) carlos_form 10 2 ana_and_bia
              = \<lparr>sb_toast = Some Paciente_cadastrado, sb_navigate = Some 10,
                 sb_insert = Some (new_patient_payload 1 carlos_form),
                 sb_database =
                   ana_and_bia\<lparr>public_patients := public_patients ana_and_bia @ [p]\<rparr>\<rparr>
            \<and> pt_id p = 10 \<and> pt_psychologist_id p = 1 \<and> pt_full_name p = ''Carlos Souza'')
   \<and> set (fetchPatients (rls_backend (Some 1) clinic) (Some 1)) = {Patient_row carlos}
   \<and> (\<exists>rs. fetchPatientData (rls_backend (Some 1) clinic) (Some 1) 10
             = Loaded (Patient_row carlos) rs)
   \<and> permitted (Some 1) UPDATE (Patient_row carlos)
   \<and> permitted (Some 1) DELETE (Patient_row carlos)"
proof -
  note a = patients_create_and_read[where u = 1 and db = clinic and p = carlos]
  note b = patients_create_and_read[where u = 1 and db = ana_and_bia and fd = carlos_form
      and new_id = 10 and now = 2 and date_in = example_date_in]
  from a have "issues Patients INSERT" and "issues Patients SELECT"
    by (simp_all del: One_nat_def)
  moreover from a clinic_ok ana_views_carlos
  have "set (fetchPatients (rls_backend (Some 1) clinic) (Some 1)) = {Patient_row carlos}"
    and "\<exists>rs. fetchPatientData (rls_backend (Some 1) clinic) (Some 1) 10
             = Loaded (Patient_row carlos) rs"
    and "permitted (Some 1) UPDATE (Patient_row carlos)"
    and "permitted (Some 1) DELETE (Patient_row carlos)"
    by (simp_all del: One_nat_def)
  moreover from b ana_and_bia_ok ana_may_submit trim_carlos
  have "\<exists>p. handleSubmit example_date_in (Some 1) carlos_form 10 2 ana_and_bia
              = \<lparr>sb_toast = Some Paciente_cadastrado, sb_navigate = Some 10,
                 sb_insert = Some (new_patient_payload 1 carlos_form),
                 sb_database =
                   ana_and_bia\<lparr>public_patients := public_patients ana_and_bia @ [p]\<rparr>\<rparr>
            \<and> pt_id p = 10 \<and> pt_psychologist_id p = 1 \<and> pt_full_name p = ''Carlos Souza''"
    by (simp del: One_nat_def)
  ultimately show ?thesis by (intro conjI)
qed








section \<open>Properties of the search filter\<close>


























end
